theory Spec2Isabelle
  imports Main "HOL-Library.Sublist" "HOL-Library.Multiset" "HOL-Library.Char_ord"
    "HOL-Library.List_Lexorder"
begin

section \<open>Errors\<close>

text \<open>
  Go's \<open>error\<close> values that the code at hand names: the storage errors of
  cmd/storage-errors.go; \<open>errFaultyDisk\<close>, \<open>errXLWriteQuorum\<close> and \<open>errInvalidToken\<close>, which
  are declared in other files of the package; the object-layer errors
  \<open>BucketNameInvalid{Bucket}\<close> and \<open>BucketNotFound{Bucket}\<close> that the bucket operations
  return; \<open>io.EOF\<close>, \<open>io.ErrUnexpectedEOF\<close> and \<open>bytes.ErrTooLarge\<close> of the standard
  library. \<open>BucketExists\<close> and \<open>WriteQuorum\<close> are error kinds that the specification names
  and no file at hand declares. Any other error is \<open>errOther\<close> with its message. A \<open>nil\<close>
  error is \<open>None\<close> of \<open>error option\<close>.
\<close>

datatype error =
    errUnexpected
  | errCorruptedFormat
  | errUnformattedDisk
  | errDiskFull
  | errDiskNotFound
  | errDiskAccessDenied
  | errFileNotFound
  | errFileNameTooLong
  | errVolumeExists
  | errIsNotRegular
  | errVolumeNotFound
  | errVolumeNotEmpty
  | errVolumeAccessDenied
  | errFileAccessDenied
  | errVolumeBusy
  | errFaultyDisk
  | errXLWriteQuorum
  | errInvalidToken
  | BucketNameInvalid string
  | BucketNotFound string
  | BucketExists string
  | WriteQuorum
  | EOF
  | ErrUnexpectedEOF
  | ErrTooLarge
  | errOther string

text \<open>
  \<open>make([]byte, n)\<close> for a length that Go accepts: \<open>n\<close> zero bytes. A byte is a \<open>char\<close>,
  a byte slice a \<open>string\<close>, so that \<open>string(buf)\<close> is the identity.
\<close>

definition make_bytes :: "nat \<Rightarrow> string" where
  "make_bytes n = replicate n (CHR 0x00)"

text \<open>Go's \<open>copy(dst, src)\<close>: the number of bytes copied and the destination afterwards.\<close>

definition copy :: "string \<Rightarrow> string \<Rightarrow> nat \<times> string" where
  "copy dst src = (let n = min (length dst) (length src) in (n, take n src @ drop n dst))"

section \<open>ListObjects argument validation (cmd/bucket-handlers-listobjects.go)\<close>

text \<open>
  The API error codes that the list handlers of the source write. \<open>APIErrorCode\<close> is an
  integer enumeration declared outside the files at hand; every other member of it is
  \<open>ErrOtherCode k\<close>.
\<close>

datatype APIErrorCode =
    ErrNone
  | ErrInvalidMaxKeys
  | ErrNotImplemented
  | ErrServerNotInitialized
  | ErrAccessDenied
  | ErrOtherCode nat

text \<open>
  Go's \<open>strings.HasPrefix(s, prefix)\<close>:
  \<^verbatim>\<open>len(s) >= len(prefix) && s[0:len(prefix)] == prefix\<close>.
\<close>

definition HasPrefix :: "string \<Rightarrow> string \<Rightarrow> bool" where
  "HasPrefix s pre = (length pre \<le> length s \<and> take (length pre) s = pre)"

text \<open>
  \<^verbatim>\<open>
  func listObjectsValidateArgs(prefix, marker, delimiter string, maxKeys int) APIErrorCode {
      if maxKeys < 0 { return ErrInvalidMaxKeys }
      if delimiter != "" && delimiter != "/" { return ErrNotImplemented }
      if marker != "" {
          if !strings.HasPrefix(marker, prefix) { return ErrNotImplemented }
      }
      return ErrNone
  }
  \<close>
  \<open>maxKeys\<close> is a Go \<open>int\<close>; it is only compared with zero, so it is an \<open>int\<close> here.
  The parameter \<open>prefix\<close> is written \<open>pre\<close>.
\<close>

definition listObjectsValidateArgs :: "string \<Rightarrow> string \<Rightarrow> string \<Rightarrow> int \<Rightarrow> APIErrorCode" where
  "listObjectsValidateArgs pre marker delimiter maxKeys =
     (if maxKeys < 0 then ErrInvalidMaxKeys
      else if delimiter \<noteq> [] \<and> delimiter \<noteq> ''/'' then ErrNotImplemented
      else if marker \<noteq> [] \<and> \<not> HasPrefix marker pre then ErrNotImplemented
      else ErrNone)"

subsection \<open>The two list handlers\<close>

text \<open>
  \<open>getRequestAuthType\<close> and the constants it returns are declared outside the files at hand;
  the handlers name three of them, the test of the function lists the others.
\<close>

datatype authType =
    authTypeUnknown
  | authTypeAnonymous
  | authTypePresigned
  | authTypeSigned
  | authTypePostPolicy
  | authTypeStreamingSigned
  | authTypeJWT

text \<open>
  What the handlers read off the HTTP request through functions that are not in the files
  at hand: the bucket of the route (\<open>mux.Vars\<close>), the result of \<open>getRequestAuthType\<close>,
  of \<open>enforceBucketPolicy(bucket, "s3:ListBucket", r.URL)\<close>, of \<open>isReqAuthenticated(r)\<close>,
  and the query arguments (\<open>getListObjectsV1Args\<close>, \<open>getListObjectsV2Args\<close>).
\<close>

record listRequest =
  reqBucket :: string
  reqAuthType :: authType
  reqBucketPolicy :: APIErrorCode
  reqAuthenticated :: APIErrorCode
  reqPrefix :: string
  reqMarker :: string
  reqToken :: string
  reqStartAfter :: string
  reqDelimiter :: string
  reqMaxKeys :: int

text \<open>One call of the object layer's \<open>ListObjects(bucket, prefix, marker, delimiter, maxKeys)\<close>.\<close>

datatype listObjectsCall = ListObjectsCall string string string string int

text \<open>
  What a handler writes: \<open>writeErrorResponse\<close> with a code, or \<open>writeSuccessResponse\<close> with
  the response generated from the listing.
\<close>

datatype 'info listResponse = ErrorResponse APIErrorCode | SuccessResponse 'info

text \<open>
  \<open>ListObjectsV1Handler\<close>. \<open>objectAPI\<close> is \<open>api.ObjectAPI()\<close> (\<open>None\<close> for \<open>nil\<close>), given by
  its \<open>ListObjects\<close> method; \<open>toAPIErrorCode\<close> is a parameter. The result is the response
  written and the calls made to the object layer.
\<close>

definition ListObjectsV1Handler ::
  "(string \<Rightarrow> string \<Rightarrow> string \<Rightarrow> string \<Rightarrow> int \<Rightarrow> 'err + 'info) option \<Rightarrow> ('err \<Rightarrow> APIErrorCode)
     \<Rightarrow> listRequest \<Rightarrow> 'info listResponse \<times> listObjectsCall list" where
  "ListObjectsV1Handler objectAPI toAPIErrorCode r =
     (case objectAPI of
        None \<Rightarrow> (ErrorResponse ErrServerNotInitialized, [])
      | Some ListObjects \<Rightarrow>
          if reqAuthType r \<noteq> authTypeAnonymous \<and> reqAuthType r \<noteq> authTypeSigned
             \<and> reqAuthType r \<noteq> authTypePresigned
          then (ErrorResponse ErrAccessDenied, [])
          else if reqAuthType r = authTypeAnonymous \<and> reqBucketPolicy r \<noteq> ErrNone
          then (ErrorResponse (reqBucketPolicy r), [])
          else if reqAuthType r \<noteq> authTypeAnonymous \<and> reqAuthenticated r \<noteq> ErrNone
          then (ErrorResponse (reqAuthenticated r), [])
          else
            let s3Error = listObjectsValidateArgs (reqPrefix r) (reqMarker r) (reqDelimiter r)
                            (reqMaxKeys r)
            in if s3Error \<noteq> ErrNone then (ErrorResponse s3Error, [])
               else
                 let call = ListObjectsCall (reqBucket r) (reqPrefix r) (reqMarker r)
                              (reqDelimiter r) (reqMaxKeys r)
                 in (case ListObjects (reqBucket r) (reqPrefix r) (reqMarker r) (reqDelimiter r)
                            (reqMaxKeys r) of
                       Inl err \<Rightarrow> (ErrorResponse (toAPIErrorCode err), [call])
                     | Inr listObjectsInfo \<Rightarrow> (SuccessResponse listObjectsInfo, [call])))"

text \<open>
  \<open>ListObjectsV2Handler\<close>: the marker is the continuation token, or \<open>start-after\<close> when the
  token is empty.
\<close>

definition ListObjectsV2Handler ::
  "(string \<Rightarrow> string \<Rightarrow> string \<Rightarrow> string \<Rightarrow> int \<Rightarrow> 'err + 'info) option \<Rightarrow> ('err \<Rightarrow> APIErrorCode)
     \<Rightarrow> listRequest \<Rightarrow> 'info listResponse \<times> listObjectsCall list" where
  "ListObjectsV2Handler objectAPI toAPIErrorCode r =
     (case objectAPI of
        None \<Rightarrow> (ErrorResponse ErrServerNotInitialized, [])
      | Some ListObjects \<Rightarrow>
          if reqAuthType r \<noteq> authTypeAnonymous \<and> reqAuthType r \<noteq> authTypeSigned
             \<and> reqAuthType r \<noteq> authTypePresigned
          then (ErrorResponse ErrAccessDenied, [])
          else if reqAuthType r = authTypeAnonymous \<and> reqBucketPolicy r \<noteq> ErrNone
          then (ErrorResponse (reqBucketPolicy r), [])
          else if reqAuthType r \<noteq> authTypeAnonymous \<and> reqAuthenticated r \<noteq> ErrNone
          then (ErrorResponse (reqAuthenticated r), [])
          else
            let marker = (if reqToken r = [] then reqStartAfter r else reqToken r);
                s3Error = listObjectsValidateArgs (reqPrefix r) marker (reqDelimiter r)
                            (reqMaxKeys r)
            in if s3Error \<noteq> ErrNone then (ErrorResponse s3Error, [])
               else
                 let call = ListObjectsCall (reqBucket r) (reqPrefix r) marker
                              (reqDelimiter r) (reqMaxKeys r)
                 in (case ListObjects (reqBucket r) (reqPrefix r) marker (reqDelimiter r)
                            (reqMaxKeys r) of
                       Inl err \<Rightarrow> (ErrorResponse (toAPIErrorCode err), [call])
                     | Inr listObjectsInfo \<Rightarrow> (SuccessResponse listObjectsInfo, [call])))"

text \<open>
  A request that reaches the argument validation: the object layer is there and the
  authentication of the request has passed.
\<close>

definition reachesValidation :: "listRequest \<Rightarrow> bool" where
  "reachesValidation r =
     ((reqAuthType r = authTypeAnonymous \<and> reqBucketPolicy r = ErrNone)
      \<or> ((reqAuthType r = authTypeSigned \<or> reqAuthType r = authTypePresigned)
          \<and> reqAuthenticated r = ErrNone))"

text \<open>
  A signed, authenticated request for the listing of \<open>bucket\<close> with \<open>max-keys=-1\<close>, and an
  object layer that answers every listing with the (clamped) number of keys it was asked for.
\<close>

definition negativeMaxKeysRequest :: listRequest where
  "negativeMaxKeysRequest =
     \<lparr>reqBucket = ''bucket'', reqAuthType = authTypeSigned, reqBucketPolicy = ErrNone,
      reqAuthenticated = ErrNone, reqPrefix = [], reqMarker = [], reqToken = [],
      reqStartAfter = [], reqDelimiter = [], reqMaxKeys = - 1\<rparr>"

definition clampingObjectLayer :: "string \<Rightarrow> string \<Rightarrow> string \<Rightarrow> string \<Rightarrow> int \<Rightarrow> unit + int" where
  "clampingObjectLayer bucket pre marker delimiter maxKeys =
     Inr (if maxKeys < 0 \<or> 10000 < maxKeys then 10000 else maxKeys)"

text \<open>A \<open>toAPIErrorCode\<close> for this object layer, whose listings never fail.\<close>

definition unitToAPIErrorCode :: "unit \<Rightarrow> APIErrorCode" where
  "unitToAPIErrorCode err = ErrOtherCode 0"

section \<open>The connection multiplexer (cmd/server-mux.go)\<close>

definition defaultHTTP2Methods :: "string list" where
  "defaultHTTP2Methods = [''PRI'']"

definition defaultHTTP1Methods :: "string list" where
  "defaultHTTP1Methods =
     [''OPTIONS'', ''GET'', ''HEAD'', ''POST'', ''PUT'', ''DELETE'', ''TRACE'', ''CONNECT'']"

text \<open>
  The accepted \<open>net.Conn\<close>, as far as \<open>Read\<close> goes: the data that will arrive, in the
  pieces in which it arrives, and the error that a read reports once nothing is left
  (\<open>io.EOF\<close> when the peer has closed). As on a TCP connection, a read returns at most one
  piece, returns bytes without an error, and returns an error only with zero bytes; a read
  into an empty slice returns \<open>0, nil\<close>.
\<close>

record conn =
  segments :: "string list"
  closeErr :: error

text \<open>\<open>c.Conn.Read(b)\<close>: the count, the error, the slice \<open>b\<close> afterwards and the connection.\<close>

definition connRead :: "conn \<Rightarrow> string \<Rightarrow> nat \<times> error option \<times> string \<times> conn" where
  "connRead c b =
     (if b = [] then (0, None, b, c)
      else case filter (\<lambda>s. s \<noteq> []) (segments c) of
             [] \<Rightarrow> (0, Some (closeErr c), b, c)
           | seg # rest \<Rightarrow>
               let n = min (length b) (length seg)
               in (n, None, take n seg @ drop n b,
                   c\<lparr>segments := (if n = length seg then rest else drop n seg # rest)\<rparr>))"

text \<open>The bytes that the connection delivers over its life.\<close>

definition connStream :: "conn \<Rightarrow> string" where
  "connStream c = concat (segments c)"

record ConnBuf =
  buffer :: string
  unRead :: bool
  offset :: nat

record MuxConn =
  Conn :: conn
  lastError :: "error option"
  dataBuf :: ConnBuf

text \<open>
  \<open>longestWord\<close> ignores its parameter and runs over the two default method lists, as the
  source does.
\<close>

definition longestWord :: "string list \<Rightarrow> nat" where
  "longestWord strings =
     fold (\<lambda>m maxLen. if maxLen < length m then length m else maxLen) defaultHTTP2Methods
       (fold (\<lambda>m maxLen. if maxLen < length m then length m else maxLen) defaultHTTP1Methods 0)"

definition NewMuxConn :: "conn \<Rightarrow> MuxConn" where
  "NewMuxConn c =
     (let h1 = longestWord defaultHTTP1Methods;
          h2 = longestWord defaultHTTP2Methods;
          max = (if h2 > h1 then h2 else h1)
      in \<lparr>Conn = c, lastError = None,
          dataBuf = \<lparr>buffer = make_bytes (max + 1), unRead = False, offset = 0\<rparr>\<rparr>)"

text \<open>
  \<^verbatim>\<open>
  func (c *MuxConn) PeekProtocol() string {
      var n int
      n, c.lastError = c.Conn.Read(c.dataBuf.buffer)
      if n == 0 || (c.lastError != nil && c.lastError != io.EOF) { return "" }
      c.dataBuf.unRead = true
      for _, m := range defaultHTTP1Methods {
          if strings.HasPrefix(string(c.dataBuf.buffer), m) { return "http" }
      }
      for _, m := range defaultHTTP2Methods {
          if strings.HasPrefix(string(c.dataBuf.buffer), m) { return "http2" }
      }
      return "tls"
  }
  \<close>
  The result is the protocol and the connection object afterwards.
\<close>

definition PeekProtocol :: "MuxConn \<Rightarrow> string \<times> MuxConn" where
  "PeekProtocol c =
     (case connRead (Conn c) (buffer (dataBuf c)) of
        (n, err, buf, conn') \<Rightarrow>
          let c1 = c\<lparr>Conn := conn', lastError := err, dataBuf := (dataBuf c)\<lparr>buffer := buf\<rparr>\<rparr>
          in if n = 0 \<or> (err \<noteq> None \<and> err \<noteq> Some EOF) then ([], c1)
             else
               let c2 = c1\<lparr>dataBuf := (dataBuf c1)\<lparr>unRead := True\<rparr>\<rparr>
               in if list_ex (\<lambda>m. HasPrefix (buffer (dataBuf c2)) m) defaultHTTP1Methods
                  then (''http'', c2)
                  else if list_ex (\<lambda>m. HasPrefix (buffer (dataBuf c2)) m) defaultHTTP2Methods
                  then (''http2'', c2)
                  else (''tls'', c2))"

text \<open>
  \<^verbatim>\<open>
  func (c *MuxConn) Read(b []byte) (int, error) {
      if c.dataBuf.unRead {
          n := copy(b, c.dataBuf.buffer[c.dataBuf.offset:])
          c.dataBuf.offset += n
          if c.dataBuf.offset == len(c.dataBuf.buffer) {
              c.dataBuf.unRead = false
              c.dataBuf.offset = 0
              c.dataBuf.buffer = c.dataBuf.buffer[:]
              if n < len(b) {
                  tmpBuffer := make([]byte, len(b)-n-1)
                  nr, err := c.Conn.Read(tmpBuffer)
                  for idx, val := range tmpBuffer { b[n+idx] = val }
                  return n + nr, err
              }
          }
          return n, c.lastError
      }
      return c.Conn.Read(b)
  }
  \<close>
  The result is the count, the error, the caller's slice \<open>b\<close> afterwards and the connection
  object afterwards.
\<close>

definition Read :: "MuxConn \<Rightarrow> string \<Rightarrow> nat \<times> error option \<times> string \<times> MuxConn" where
  "Read c b =
     (if unRead (dataBuf c) then
        (case copy b (drop (offset (dataBuf c)) (buffer (dataBuf c))) of
           (n, b1) \<Rightarrow>
             let c1 = c\<lparr>dataBuf := (dataBuf c)\<lparr>offset := offset (dataBuf c) + n\<rparr>\<rparr>
             in if offset (dataBuf c1) = length (buffer (dataBuf c1)) then
                  let c2 = c1\<lparr>dataBuf := (dataBuf c1)\<lparr>unRead := False, offset := 0\<rparr>\<rparr>
                  in if n < length b then
                       (case connRead (Conn c2) (make_bytes (length b - n - 1)) of
                          (nr, err, tmpBuffer, conn') \<Rightarrow>
                            (n + nr, err,
                             take n b1 @ tmpBuffer @ drop (n + length tmpBuffer) b1,
                             c2\<lparr>Conn := conn'\<rparr>))
                     else (n, lastError c2, b1, c2)
                else (n, lastError c1, b1, c1))
      else
        (case connRead (Conn c) b of
           (n, err, b', conn') \<Rightarrow> (n, err, b', c\<lparr>Conn := conn'\<rparr>)))"

text \<open>
  The bytes that a caller gets out of successive \<open>Read\<close> calls with slices of the lengths
  \<open>ks\<close>: after each call, the first \<open>n\<close> bytes of its slice.
\<close>

fun muxStream :: "MuxConn \<Rightarrow> nat list \<Rightarrow> string" where
  "muxStream c [] = []"
| "muxStream c (k # ks) =
     (case Read c (make_bytes k) of (n, err, b, c') \<Rightarrow> take n b @ muxStream c' ks)"

text \<open>
  What is still to come out of a \<open>MuxConn\<close>: the part of the peek buffer that has not been
  replayed, then the rest of the connection.
\<close>

definition pending :: "MuxConn \<Rightarrow> string" where
  "pending c =
     (if unRead (dataBuf c) then drop (offset (dataBuf c)) (buffer (dataBuf c)) else [])
       @ connStream (Conn c)"

text \<open>Two connections: a request that arrives in one piece, and one whose first piece is short.\<close>

definition getRequest :: conn where
  "getRequest = \<lparr>segments = [''GET / HTTP/1.1''], closeErr = EOF\<rparr>"

definition shortFirstSegment :: conn where
  "shortFirstSegment = \<lparr>segments = [''GET'', '' / HTTP/1.1''], closeErr = EOF\<rparr>"

section \<open>The storage interface\<close>

text \<open>
  The values that the storage calls return. \<open>VolInfo\<close>, \<open>FileInfo\<close> and \<open>disk.Info\<close> are
  declared outside the files at hand; the fields are the ones the code at hand and the
  specification name (a volume's name and creation time, a file's size and modification
  time, a disk's total and free bytes and file-system type). Times are numbers.
\<close>

record VolInfo =
  Name :: string
  Created :: int

record FileInfo =
  FileSize :: int
  FileModTime :: int

record Info =
  Total :: int
  Free :: int
  FSType :: string

text \<open>One call of a method of \<open>StorageAPI\<close>; for \<open>ReadFile\<close>, with the length of the buffer.\<close>

datatype storageCall =
    CallDiskInfo
  | CallMakeVol string
  | CallListVols
  | CallStatVol string
  | CallDeleteVol string
  | CallListDir string string
  | CallReadFile string string int nat
  | CallReadAll string string
  | CallAppendFile string string string
  | CallRenameFile string string string string
  | CallStatFile string string
  | CallDeleteFile string string

text \<open>
  A disk behind the interface \<open>StorageAPI\<close> (a local disk, a remote one, a faulty one of the
  tests): what it answers to each call, which may depend on all the calls it has received so
  far, and the calls it has received so far, oldest first. Nothing is assumed about the
  answers. \<open>ReadFile\<close> answers with the count, the bytes it has written at the front of the
  buffer and the error, or panics (\<open>None\<close>).
\<close>

record disk =
  onDiskInfo :: "storageCall list \<Rightarrow> Info \<times> error option"
  onMakeVol :: "storageCall list \<Rightarrow> string \<Rightarrow> error option"
  onListVols :: "storageCall list \<Rightarrow> VolInfo list \<times> error option"
  onStatVol :: "storageCall list \<Rightarrow> string \<Rightarrow> VolInfo \<times> error option"
  onDeleteVol :: "storageCall list \<Rightarrow> string \<Rightarrow> error option"
  onListDir :: "storageCall list \<Rightarrow> string \<Rightarrow> string \<Rightarrow> string list \<times> error option"
  onReadFile ::
    "storageCall list \<Rightarrow> string \<Rightarrow> string \<Rightarrow> int \<Rightarrow> nat \<Rightarrow> (int \<times> string \<times> error option) option"
  onReadAll :: "storageCall list \<Rightarrow> string \<Rightarrow> string \<Rightarrow> string \<times> error option"
  onAppendFile :: "storageCall list \<Rightarrow> string \<Rightarrow> string \<Rightarrow> string \<Rightarrow> error option"
  onRenameFile :: "storageCall list \<Rightarrow> string \<Rightarrow> string \<Rightarrow> string \<Rightarrow> string \<Rightarrow> error option"
  onStatFile :: "storageCall list \<Rightarrow> string \<Rightarrow> string \<Rightarrow> FileInfo \<times> error option"
  onDeleteFile :: "storageCall list \<Rightarrow> string \<Rightarrow> string \<Rightarrow> error option"
  calls :: "storageCall list"

text \<open>The methods: the answer, and the disk with the call recorded.\<close>

definition logCall :: "storageCall \<Rightarrow> disk \<Rightarrow> disk" where
  "logCall c d = d\<lparr>calls := calls d @ [c]\<rparr>"

definition DiskInfo :: "disk \<Rightarrow> (Info \<times> error option) \<times> disk" where
  "DiskInfo d = (onDiskInfo d (calls d), logCall CallDiskInfo d)"

definition MakeVol :: "disk \<Rightarrow> string \<Rightarrow> error option \<times> disk" where
  "MakeVol d volume = (onMakeVol d (calls d) volume, logCall (CallMakeVol volume) d)"

definition ListVols :: "disk \<Rightarrow> (VolInfo list \<times> error option) \<times> disk" where
  "ListVols d = (onListVols d (calls d), logCall CallListVols d)"

definition StatVol :: "disk \<Rightarrow> string \<Rightarrow> (VolInfo \<times> error option) \<times> disk" where
  "StatVol d volume = (onStatVol d (calls d) volume, logCall (CallStatVol volume) d)"

definition DeleteVol :: "disk \<Rightarrow> string \<Rightarrow> error option \<times> disk" where
  "DeleteVol d volume = (onDeleteVol d (calls d) volume, logCall (CallDeleteVol volume) d)"

definition ListDir :: "disk \<Rightarrow> string \<Rightarrow> string \<Rightarrow> (string list \<times> error option) \<times> disk" where
  "ListDir d volume dirPath =
     (onListDir d (calls d) volume dirPath, logCall (CallListDir volume dirPath) d)"

text \<open>
  \<open>ReadFile(volume, path, offset, buf)\<close>: on return, the count, the buffer afterwards (of
  the length it had) and the error.
\<close>

definition ReadFile ::
  "disk \<Rightarrow> string \<Rightarrow> string \<Rightarrow> int \<Rightarrow> string \<Rightarrow> (int \<times> string \<times> error option) option \<times> disk" where
  "ReadFile d volume path off buf =
     (case onReadFile d (calls d) volume path off (length buf) of
        None \<Rightarrow> None
      | Some (n, written, err) \<Rightarrow> Some (n, snd (copy buf written), err),
      logCall (CallReadFile volume path off (length buf)) d)"

definition ReadAll :: "disk \<Rightarrow> string \<Rightarrow> string \<Rightarrow> (string \<times> error option) \<times> disk" where
  "ReadAll d volume path = (onReadAll d (calls d) volume path, logCall (CallReadAll volume path) d)"

definition AppendFile :: "disk \<Rightarrow> string \<Rightarrow> string \<Rightarrow> string \<Rightarrow> error option \<times> disk" where
  "AppendFile d volume path buf =
     (onAppendFile d (calls d) volume path buf, logCall (CallAppendFile volume path buf) d)"

definition RenameFile :: "disk \<Rightarrow> string \<Rightarrow> string \<Rightarrow> string \<Rightarrow> string \<Rightarrow> error option \<times> disk" where
  "RenameFile d srcVolume srcPath dstVolume dstPath =
     (onRenameFile d (calls d) srcVolume srcPath dstVolume dstPath,
      logCall (CallRenameFile srcVolume srcPath dstVolume dstPath) d)"

definition StatFile :: "disk \<Rightarrow> string \<Rightarrow> string \<Rightarrow> (FileInfo \<times> error option) \<times> disk" where
  "StatFile d volume path =
     (onStatFile d (calls d) volume path, logCall (CallStatFile volume path) d)"

definition DeleteFile :: "disk \<Rightarrow> string \<Rightarrow> string \<Rightarrow> error option \<times> disk" where
  "DeleteFile d volume path =
     (onDeleteFile d (calls d) volume path, logCall (CallDeleteFile volume path) d)"

section \<open>Members of package cmd that are declared outside the files at hand\<close>

text \<open>One operation on the namespace lock \<open>nsMutex\<close>: volume, path and operation id.\<close>

datatype nsLockCall =
    NSLock string string string
  | NSUnlock string string string
  | NSRLock string string string
  | NSRUnlock string string string

text \<open>
  The bucket operations and the RPC handlers call functions and read constants of their
  package whose declarations are not in the files at hand. They are parameters here:
  \<^item> \<open>IsValidBucketName(bucket)\<close>;
  \<^item> \<open>toObjectErr(err, params...)\<close>;
  \<^item> \<open>reduceErrs(errs, ignoredErrs)\<close>;
  \<^item> \<open>cleanupDir(disk, volume, dirPath)\<close>, which works on the disk and returns an error;
  \<^item> the constant \<open>minioMetaBucket\<close> and the value of
    \<open>path.Join(minioMetaBucket, mpartMetaPrefix)\<close>;
  \<^item> \<open>getOpsID()\<close>;
  \<^item> \<open>isRPCTokenValid(token)\<close>;
  \<^item> the largest length that \<open>make([]byte, n)\<close> accepts (Go panics on a negative or
    larger length).
\<close>

record pkg =
  IsValidBucketName :: "string \<Rightarrow> bool"
  toObjectErr :: "error \<Rightarrow> string list \<Rightarrow> error"
  reduceErrs :: "error option list \<Rightarrow> error list \<Rightarrow> error option"
  cleanupDir :: "disk \<Rightarrow> string \<Rightarrow> string \<Rightarrow> error option \<times> disk"
  minioMetaBucket :: string
  mpartMetaPath :: string
  getOpsID :: string
  isRPCTokenValid :: "string \<Rightarrow> bool"
  maxAlloc :: int

text \<open>
  Modelled from the spec: \<open>isErrIgnored(err, ignoredErrs)\<close> is not in the files at hand.
  The specification: ``disks reporting ignorable errors are skipped'', the ignorable errors
  being a list. A \<open>nil\<close> error is not in any list.
\<close>

definition isErrIgnored :: "error option \<Rightarrow> error list \<Rightarrow> bool" where
  "isErrIgnored err ignoredErrs = (case err of None \<Rightarrow> False | Some e \<Rightarrow> e \<in> set ignoredErrs)"

text \<open>
  Modelled from the spec: \<open>isDiskQuorum(errs, quorum)\<close> is not in the files at hand. The
  specification: ``If successes < writeQuorum, best-effort undo and fail with WriteQuorum'';
  a success is a \<open>nil\<close> entry of the per-disk errors.
\<close>

definition isDiskQuorum :: "error option list \<Rightarrow> int \<Rightarrow> bool" where
  "isDiskQuorum errs minQuorumCount = (minQuorumCount \<le> int (length (filter (\<lambda>e. e = None) errs)))"

text \<open>
  Modelled from the spec: \<open>xl.getLoadBalancedDisks()\<close> is not in the files at hand. The
  specification: ``Load-balanced disk: a randomly rotated view of the disk sequence''. For
  \<open>n\<close> disks and the random rotation \<open>r\<close>, the disks are visited in the order \<open>lbOrder n r\<close>
  of their indices.
\<close>

definition lbOrder :: "nat \<Rightarrow> nat \<Rightarrow> nat list" where
  "lbOrder n r = rotate r [0..<n]"

section \<open>The storage RPC server (cmd/storage-rpc-server.go)\<close>

record storageServer =
  storage :: disk
  path :: string

text \<open>
  The argument and reply structures of the handlers are declared outside the files at hand;
  the fields are the ones the handlers read and write. Every argument structure carries the
  token.
\<close>

record GenericArgs =
  Token :: string

record GenericVolArgs = GenericArgs +
  Vol :: string

record StatFileArgs = GenericVolArgs +
  Path :: string

type_synonym ListDirArgs = StatFileArgs

type_synonym DeleteFileArgs = StatFileArgs

record ReadFileArgs = StatFileArgs +
  Offset :: int
  Size :: int

record AppendFileArgs = StatFileArgs +
  Buffer :: string

record RenameFileArgs = GenericArgs +
  SrcVol :: string
  SrcPath :: string
  DstVol :: string
  DstPath :: string

record ListVolsReply =
  Vols :: "VolInfo list"

type_synonym GenericReply = unit

text \<open>
  A handler \<open>func (s *storageServer) H(args *A, reply *R) error\<close> takes the server, the
  arguments and the value that \<open>reply\<close> points to, and returns the error, the value of
  \<open>*reply\<close> afterwards and the server afterwards (its disk has recorded the calls).
\<close>

definition DiskInfoHandler ::
  "pkg \<Rightarrow> storageServer \<Rightarrow> GenericArgs \<Rightarrow> Info \<Rightarrow> error option \<times> Info \<times> storageServer" where
  "DiskInfoHandler pk s args reply =
     (if \<not> isRPCTokenValid pk (Token args) then (Some errInvalidToken, reply, s)
      else case DiskInfo (storage s) of
             ((info, err), d) \<Rightarrow> (err, info, s\<lparr>storage := d\<rparr>))"

definition MakeVolHandler ::
  "pkg \<Rightarrow> storageServer \<Rightarrow> GenericVolArgs \<Rightarrow> GenericReply
     \<Rightarrow> error option \<times> GenericReply \<times> storageServer" where
  "MakeVolHandler pk s args reply =
     (if \<not> isRPCTokenValid pk (Token args) then (Some errInvalidToken, reply, s)
      else case MakeVol (storage s) (Vol args) of
             (err, d) \<Rightarrow> (err, reply, s\<lparr>storage := d\<rparr>))"

definition ListVolsHandler ::
  "pkg \<Rightarrow> storageServer \<Rightarrow> GenericArgs \<Rightarrow> ListVolsReply
     \<Rightarrow> error option \<times> ListVolsReply \<times> storageServer" where
  "ListVolsHandler pk s args reply =
     (if \<not> isRPCTokenValid pk (Token args) then (Some errInvalidToken, reply, s)
      else case ListVols (storage s) of
             ((vols, err), d) \<Rightarrow>
               if err \<noteq> None then (err, reply, s\<lparr>storage := d\<rparr>)
               else (None, reply\<lparr>Vols := vols\<rparr>, s\<lparr>storage := d\<rparr>))"

definition StatVolHandler ::
  "pkg \<Rightarrow> storageServer \<Rightarrow> GenericVolArgs \<Rightarrow> VolInfo
     \<Rightarrow> error option \<times> VolInfo \<times> storageServer" where
  "StatVolHandler pk s args reply =
     (if \<not> isRPCTokenValid pk (Token args) then (Some errInvalidToken, reply, s)
      else case StatVol (storage s) (Vol args) of
             ((volInfo, err), d) \<Rightarrow>
               if err \<noteq> None then (err, reply, s\<lparr>storage := d\<rparr>)
               else (None, volInfo, s\<lparr>storage := d\<rparr>))"

definition DeleteVolHandler ::
  "pkg \<Rightarrow> storageServer \<Rightarrow> GenericVolArgs \<Rightarrow> GenericReply
     \<Rightarrow> error option \<times> GenericReply \<times> storageServer" where
  "DeleteVolHandler pk s args reply =
     (if \<not> isRPCTokenValid pk (Token args) then (Some errInvalidToken, reply, s)
      else case DeleteVol (storage s) (Vol args) of
             (err, d) \<Rightarrow> (err, reply, s\<lparr>storage := d\<rparr>))"

definition StatFileHandler ::
  "pkg \<Rightarrow> storageServer \<Rightarrow> StatFileArgs \<Rightarrow> FileInfo
     \<Rightarrow> error option \<times> FileInfo \<times> storageServer" where
  "StatFileHandler pk s args reply =
     (if \<not> isRPCTokenValid pk (Token args) then (Some errInvalidToken, reply, s)
      else case StatFile (storage s) (Vol args) (Path args) of
             ((fileInfo, err), d) \<Rightarrow>
               if err \<noteq> None then (err, reply, s\<lparr>storage := d\<rparr>)
               else (None, fileInfo, s\<lparr>storage := d\<rparr>))"

definition ListDirHandler ::
  "pkg \<Rightarrow> storageServer \<Rightarrow> ListDirArgs \<Rightarrow> string list
     \<Rightarrow> error option \<times> string list \<times> storageServer" where
  "ListDirHandler pk s args reply =
     (if \<not> isRPCTokenValid pk (Token args) then (Some errInvalidToken, reply, s)
      else case ListDir (storage s) (Vol args) (Path args) of
             ((entries, err), d) \<Rightarrow>
               if err \<noteq> None then (err, reply, s\<lparr>storage := d\<rparr>)
               else (None, entries, s\<lparr>storage := d\<rparr>))"

definition ReadAllHandler ::
  "pkg \<Rightarrow> storageServer \<Rightarrow> ReadFileArgs \<Rightarrow> string \<Rightarrow> error option \<times> string \<times> storageServer" where
  "ReadAllHandler pk s args reply =
     (if \<not> isRPCTokenValid pk (Token args) then (Some errInvalidToken, reply, s)
      else case ReadAll (storage s) (Vol args) (Path args) of
             ((buf, err), d) \<Rightarrow>
               if err \<noteq> None then (err, reply, s\<lparr>storage := d\<rparr>)
               else (None, buf, s\<lparr>storage := d\<rparr>))"

text \<open>
  \<^verbatim>\<open>
  func (s *storageServer) ReadFileHandler(args *ReadFileArgs, reply *[]byte) (err error) {
      defer func() {
          if r := recover(); r != nil { err = bytes.ErrTooLarge }
      }()
      if !isRPCTokenValid(args.Token) { return errInvalidToken }
      *reply = make([]byte, args.Size)
      var n int64
      n, err = s.storage.ReadFile(args.Vol, args.Path, args.Offset, *reply)
      if err == io.ErrUnexpectedEOF { err = nil }
      *reply = (*reply)[0:n]
      return err
  }
  \<close>
  The body either returns an error value or panics, in both cases with \<open>*reply\<close> and the
  server as they are at that moment. It panics where Go does: in \<open>make\<close> when the length is
  negative or beyond what can be allocated, inside \<open>ReadFile\<close>, and in the slice expression
  when \<open>n\<close> is negative or beyond the capacity of the buffer.
\<close>

datatype 'a outcome = Returns 'a | Panics

definition ReadFileHandler_body ::
  "pkg \<Rightarrow> storageServer \<Rightarrow> ReadFileArgs \<Rightarrow> string
     \<Rightarrow> error option outcome \<times> string \<times> storageServer" where
  "ReadFileHandler_body pk s args reply =
     (if \<not> isRPCTokenValid pk (Token args) then (Returns (Some errInvalidToken), reply, s)
      else if Size args < 0 \<or> maxAlloc pk < Size args then (Panics, reply, s)
      else
        let reply1 = make_bytes (nat (Size args))
        in case ReadFile (storage s) (Vol args) (Path args) (Offset args) reply1 of
             (None, d) \<Rightarrow> (Panics, reply1, s\<lparr>storage := d\<rparr>)
           | (Some (n, reply2, err), d) \<Rightarrow>
               let err1 = (if err = Some ErrUnexpectedEOF then None else err)
               in if n < 0 \<or> int (length reply2) < n then (Panics, reply2, s\<lparr>storage := d\<rparr>)
                  else (Returns err1, take (nat n) reply2, s\<lparr>storage := d\<rparr>))"

text \<open>The deferred function: a panic of the body becomes the error \<open>bytes.ErrTooLarge\<close>.\<close>

definition ReadFileHandler ::
  "pkg \<Rightarrow> storageServer \<Rightarrow> ReadFileArgs \<Rightarrow> string \<Rightarrow> error option \<times> string \<times> storageServer" where
  "ReadFileHandler pk s args reply =
     (case ReadFileHandler_body pk s args reply of
        (Panics, reply', s') \<Rightarrow> (Some ErrTooLarge, reply', s')
      | (Returns err, reply', s') \<Rightarrow> (err, reply', s'))"

definition AppendFileHandler ::
  "pkg \<Rightarrow> storageServer \<Rightarrow> AppendFileArgs \<Rightarrow> GenericReply
     \<Rightarrow> error option \<times> GenericReply \<times> storageServer" where
  "AppendFileHandler pk s args reply =
     (if \<not> isRPCTokenValid pk (Token args) then (Some errInvalidToken, reply, s)
      else case AppendFile (storage s) (Vol args) (Path args) (Buffer args) of
             (err, d) \<Rightarrow> (err, reply, s\<lparr>storage := d\<rparr>))"

definition DeleteFileHandler ::
  "pkg \<Rightarrow> storageServer \<Rightarrow> DeleteFileArgs \<Rightarrow> GenericReply
     \<Rightarrow> error option \<times> GenericReply \<times> storageServer" where
  "DeleteFileHandler pk s args reply =
     (if \<not> isRPCTokenValid pk (Token args) then (Some errInvalidToken, reply, s)
      else case DeleteFile (storage s) (Vol args) (Path args) of
             (err, d) \<Rightarrow> (err, reply, s\<lparr>storage := d\<rparr>))"

definition RenameFileHandler ::
  "pkg \<Rightarrow> storageServer \<Rightarrow> RenameFileArgs \<Rightarrow> GenericReply
     \<Rightarrow> error option \<times> GenericReply \<times> storageServer" where
  "RenameFileHandler pk s args reply =
     (if \<not> isRPCTokenValid pk (Token args) then (Some errInvalidToken, reply, s)
      else case RenameFile (storage s) (SrcVol args) (SrcPath args) (DstVol args) (DstPath args) of
             (err, d) \<Rightarrow> (err, reply, s\<lparr>storage := d\<rparr>))"

section \<open>Bucket operations of the XL object layer (second part of cmd/storage-errors.go)\<close>

text \<open>
  \<open>BucketInfo\<close> has the fields \<open>Name\<close> and \<open>Created\<close> in the source; they are \<open>BucketName\<close> and
  \<open>BucketCreated\<close> here, since \<open>VolInfo\<close> has taken the names. Of \<open>xlObjects\<close>, the bucket
  operations use the disks (a \<open>nil\<close> disk is \<open>None\<close>) and the write quorum.
\<close>

record BucketInfo =
  BucketName :: string
  BucketCreated :: int

record xlObjects =
  storageDisks :: "disk option list"
  writeQuorum :: int

definition bucketMetadataOpIgnoredErrs :: "error list" where
  "bucketMetadataOpIgnoredErrs =
     [errDiskNotFound, errDiskAccessDenied, errFaultyDisk, errVolumeNotFound]"

text \<open>
  The disk at an index of the load-balanced order. The order holds indices of the disk
  array only; the guard makes the function total.
\<close>

definition diskAt :: "disk option list \<Rightarrow> nat \<Rightarrow> disk option" where
  "diskAt disks i = (if i < length disks then disks ! i else None)"

text \<open>
  \<^verbatim>\<open>
  func (xl xlObjects) getBucketInfo(bucketName string) (bucketInfo BucketInfo, err error) {
      for _, disk := range xl.getLoadBalancedDisks() {
          if disk == nil { continue }
          var volInfo VolInfo
          volInfo, err = disk.StatVol(bucketName)
          if err == nil {
              bucketInfo = BucketInfo{Name: volInfo.Name, Created: volInfo.Created}
              return bucketInfo, nil
          }
          if isErrIgnored(err, bucketMetadataOpIgnoredErrs) { continue }
          break
      }
      return BucketInfo{}, err
  }
  \<close>
  The loop runs over the indices still to visit, with the current value of \<open>err\<close> and the
  disks; it returns the result and the disks afterwards.
\<close>

fun getBucketInfo_loop ::
  "string \<Rightarrow> nat list \<Rightarrow> error option \<Rightarrow> disk option list
     \<Rightarrow> (BucketInfo \<times> error option) \<times> disk option list" where
  "getBucketInfo_loop bucketName [] err disks =
     ((\<lparr>BucketName = [], BucketCreated = 0\<rparr>, err), disks)"
| "getBucketInfo_loop bucketName (i # rest) err disks =
     (case diskAt disks i of
        None \<Rightarrow> getBucketInfo_loop bucketName rest err disks
      | Some disk \<Rightarrow>
          (case StatVol disk bucketName of
             ((volInfo, err1), disk1) \<Rightarrow>
               if err1 = None
               then ((\<lparr>BucketName = Name volInfo, BucketCreated = Created volInfo\<rparr>, None),
                     disks[i := Some disk1])
               else if isErrIgnored err1 bucketMetadataOpIgnoredErrs
               then getBucketInfo_loop bucketName rest err1 (disks[i := Some disk1])
               else ((\<lparr>BucketName = [], BucketCreated = 0\<rparr>, err1), disks[i := Some disk1])))"

definition getBucketInfo ::
  "xlObjects \<Rightarrow> nat \<Rightarrow> string \<Rightarrow> (BucketInfo \<times> error option) \<times> disk option list" where
  "getBucketInfo xl r bucketName =
     getBucketInfo_loop bucketName (lbOrder (length (storageDisks xl)) r) None (storageDisks xl)"

text \<open>
  \<open>isBucketExist\<close>: under the read lock of the bucket, \<open>true\<close> exactly when \<open>getBucketInfo\<close>
  returns no error. The result is the answer, the object layer with its disks afterwards, and
  the operations on \<open>nsMutex\<close> so far. (\<open>errorIf\<close> only writes a log line.)
\<close>

definition isBucketExist ::
  "pkg \<Rightarrow> xlObjects \<Rightarrow> nat \<Rightarrow> nsLockCall list \<Rightarrow> string \<Rightarrow> bool \<times> xlObjects \<times> nsLockCall list" where
  "isBucketExist pk xl r ns bucket =
     (let opsID = getOpsID pk
      in case getBucketInfo xl r bucket of
           ((bucketInfo, err), disks1) \<Rightarrow>
             (err = None, xl\<lparr>storageDisks := disks1\<rparr>,
              ns @ [NSRLock bucket [] opsID, NSRUnlock bucket [] opsID]))"

text \<open>
  The fan-out of \<open>MakeBucket\<close>: one goroutine per disk calls \<open>MakeVol\<close> on its own disk and
  writes its own slot of \<open>dErrs\<close>, and the function waits for all of them. A \<open>nil\<close> disk
  gets \<open>errDiskNotFound\<close>. The disks do not share state, so the outcome is the per-disk
  step on every disk.
\<close>

definition makeVolOnDisk :: "string \<Rightarrow> disk option \<Rightarrow> error option \<times> disk option" where
  "makeVolOnDisk bucket disk =
     (case disk of
        None \<Rightarrow> (Some errDiskNotFound, None)
      | Some d \<Rightarrow> (case MakeVol d bucket of (err, d1) \<Rightarrow> (err, Some d1)))"

definition makeVolAll :: "string \<Rightarrow> disk option list \<Rightarrow> error option list \<times> disk option list" where
  "makeVolAll bucket disks =
     (map (\<lambda>disk. fst (makeVolOnDisk bucket disk)) disks,
      map (\<lambda>disk. snd (makeVolOnDisk bucket disk)) disks)"

text \<open>\<open>undoMakeBucket\<close>: \<open>DeleteVol\<close> on every disk that is not \<open>nil\<close>, the errors dropped.\<close>

definition undoMakeBucket :: "string \<Rightarrow> disk option list \<Rightarrow> disk option list" where
  "undoMakeBucket bucket disks = map (map_option (\<lambda>d. snd (DeleteVol d bucket))) disks"


text \<open>
  \<^verbatim>\<open>
  func (xl xlObjects) MakeBucket(bucket string) error {
      if !IsValidBucketName(bucket) { return BucketNameInvalid{Bucket: bucket} }
      if xl.isBucketExist(bucket) { return toObjectErr(errVolumeExists, bucket) }
      opsID := getOpsID()
      nsMutex.Lock(bucket, "", opsID)
      defer nsMutex.Unlock(bucket, "", opsID)
      ... fan-out of MakeVol into dErrs ...
      if !isDiskQuorum(dErrs, xl.writeQuorum) {
          xl.undoMakeBucket(bucket)
          return toObjectErr(errXLWriteQuorum, bucket)
      }
      if reducedErr := reduceErrs(dErrs, []error{
          errDiskNotFound, errFaultyDisk, errDiskAccessDenied,
      }); reducedErr != nil {
          return toObjectErr(reducedErr, bucket)
      }
      return nil
  }
  \<close>
  \<open>r\<close> is the rotation that the load balancing of \<open>isBucketExist\<close> draws.
\<close>

definition MakeBucket ::
  "pkg \<Rightarrow> xlObjects \<Rightarrow> nat \<Rightarrow> nsLockCall list \<Rightarrow> string
     \<Rightarrow> error option \<times> xlObjects \<times> nsLockCall list" where
  "MakeBucket pk xl r ns bucket =
     (if \<not> IsValidBucketName pk bucket then (Some (BucketNameInvalid bucket), xl, ns)
      else case isBucketExist pk xl r ns bucket of
        (exist, xl1, ns1) \<Rightarrow>
          if exist then (Some (toObjectErr pk errVolumeExists [bucket]), xl1, ns1)
          else
            let opsID = getOpsID pk;
                ns2 = ns1 @ [NSLock bucket [] opsID];
                ns3 = ns2 @ [NSUnlock bucket [] opsID]
            in case makeVolAll bucket (storageDisks xl1) of
                 (dErrs, disks2) \<Rightarrow>
                   if \<not> isDiskQuorum dErrs (writeQuorum xl1)
                   then (Some (toObjectErr pk errXLWriteQuorum [bucket]),
                         xl1\<lparr>storageDisks := undoMakeBucket bucket disks2\<rparr>, ns3)
                   else (case reduceErrs pk dErrs
                                [errDiskNotFound, errFaultyDisk, errDiskAccessDenied] of
                           Some reducedErr \<Rightarrow>
                             (Some (toObjectErr pk reducedErr [bucket]),
                              xl1\<lparr>storageDisks := disks2\<rparr>, ns3)
                         | None \<Rightarrow> (None, xl1\<lparr>storageDisks := disks2\<rparr>, ns3)))"




text \<open>
  The buckets among the volumes of a disk, as the inner loop of \<open>listBuckets\<close> collects
  them: the volumes with a valid bucket name other than \<open>minioMetaBucket\<close>, in the order of
  the listing.
\<close>

definition bucketsOfVols :: "pkg \<Rightarrow> VolInfo list \<Rightarrow> BucketInfo list" where
  "bucketsOfVols pk volsInfo =
     map (\<lambda>volInfo. \<lparr>BucketName = Name volInfo, BucketCreated = Created volInfo\<rparr>)
       (filter (\<lambda>volInfo. IsValidBucketName pk (Name volInfo) \<and> Name volInfo \<noteq> minioMetaBucket pk)
          volsInfo)"

text \<open>
  \<^verbatim>\<open>
  func (xl xlObjects) listBuckets() (bucketsInfo []BucketInfo, err error) {
      for _, disk := range xl.getLoadBalancedDisks() {
          if disk == nil { continue }
          var volsInfo []VolInfo
          volsInfo, err = disk.ListVols()
          if err == nil {
              var bucketsInfo []BucketInfo
              for _, volInfo := range volsInfo { ... }
              // For buckets info empty, loop once again to check
              // if we have, can happen if disks are down.
              if len(bucketsInfo) == 0 { continue }
              return bucketsInfo, nil
          }
          if isErrIgnored(err, bucketMetadataOpIgnoredErrs) { continue }
          break
      }
      return nil, err
  }
  \<close>
\<close>

fun listBuckets_loop ::
  "pkg \<Rightarrow> nat list \<Rightarrow> error option \<Rightarrow> disk option list
     \<Rightarrow> (BucketInfo list \<times> error option) \<times> disk option list" where
  "listBuckets_loop pk [] err disks = (([], err), disks)"
| "listBuckets_loop pk (i # rest) err disks =
     (case diskAt disks i of
        None \<Rightarrow> listBuckets_loop pk rest err disks
      | Some disk \<Rightarrow>
          (case ListVols disk of
             ((volsInfo, err1), disk1) \<Rightarrow>
               if err1 = None
               then (if bucketsOfVols pk volsInfo = []
                     then listBuckets_loop pk rest err1 (disks[i := Some disk1])
                     else ((bucketsOfVols pk volsInfo, None), disks[i := Some disk1]))
               else if isErrIgnored err1 bucketMetadataOpIgnoredErrs
               then listBuckets_loop pk rest err1 (disks[i := Some disk1])
               else (([], err1), disks[i := Some disk1])))"

definition listBuckets ::
  "pkg \<Rightarrow> xlObjects \<Rightarrow> nat \<Rightarrow> (BucketInfo list \<times> error option) \<times> disk option list" where
  "listBuckets pk xl r =
     listBuckets_loop pk (lbOrder (length (storageDisks xl)) r) None (storageDisks xl)"

text \<open>
  \<open>ListBuckets\<close>. \<open>sort.Sort(byBucketName(bucketInfos))\<close> sorts by \<open>Name\<close> under Go's string
  order, the order of the bytes; \<open>byBucketName\<close> is not in the files at hand. Go's sort need
  not be stable and \<open>sort_key\<close> is; the buckets that it returns and their order by name are
  the same.
\<close>

definition ListBuckets ::
  "pkg \<Rightarrow> xlObjects \<Rightarrow> nat \<Rightarrow> (BucketInfo list \<times> error option) \<times> xlObjects" where
  "ListBuckets pk xl r =
     (case listBuckets pk xl r of
        ((bucketInfos, err), disks1) \<Rightarrow>
          (case err of
             Some e \<Rightarrow> (([], Some (toObjectErr pk e [])), xl\<lparr>storageDisks := disks1\<rparr>)
           | None \<Rightarrow> ((sort_key BucketName bucketInfos, None), xl\<lparr>storageDisks := disks1\<rparr>)))"

subsection \<open>What an operation adds to the call logs of the disks\<close>

text \<open>
  \<open>disksExtendedBy P before after\<close>: the disks are the same in number, a missing disk is
  still missing, and every other disk has received, after the calls it had, only calls that
  satisfy \<open>P\<close>.
\<close>

definition diskExtendedBy :: "(storageCall \<Rightarrow> bool) \<Rightarrow> disk option \<Rightarrow> disk option \<Rightarrow> bool" where
  "diskExtendedBy P before after =
     (case (before, after) of
        (None, None) \<Rightarrow> True
      | (Some d, Some d1) \<Rightarrow>
          prefix (calls d) (calls d1) \<and> list_all P (drop (length (calls d)) (calls d1))
      | _ \<Rightarrow> False)"

definition disksExtendedBy ::
  "(storageCall \<Rightarrow> bool) \<Rightarrow> disk option list \<Rightarrow> disk option list \<Rightarrow> bool" where
  "disksExtendedBy P before after = list_all2 (diskExtendedBy P) before after"

text \<open>The disks on which \<open>MakeVol\<close>, respectively \<open>DeleteVol\<close>, of the bucket succeeds.\<close>

definition makeVolSucceeds :: "string \<Rightarrow> disk option \<Rightarrow> bool" where
  "makeVolSucceeds bucket disk =
     (case disk of None \<Rightarrow> False | Some d \<Rightarrow> fst (MakeVol d bucket) = None)"



text \<open>
  A disk that \<open>listBuckets\<close> passes over: a missing disk, a disk whose \<open>ListVols\<close> fails with
  an error of \<open>bucketMetadataOpIgnoredErrs\<close>, or a disk whose listing holds no bucket.
\<close>

definition passedOver :: "pkg \<Rightarrow> disk option \<Rightarrow> bool" where
  "passedOver pk disk =
     (case disk of
        None \<Rightarrow> True
      | Some d \<Rightarrow>
          (case fst (ListVols d) of
             (volsInfo, None) \<Rightarrow> bucketsOfVols pk volsInfo = []
           | (volsInfo, Some e) \<Rightarrow> isErrIgnored (Some e) bucketMetadataOpIgnoredErrs))"

text \<open>
  What \<open>getBucketInfo\<close> meets at a disk. It goes on to the next disk at a missing disk and
  at a disk whose \<open>StatVol\<close> of the bucket fails with an error of
  \<open>bucketMetadataOpIgnoredErrs\<close>; it has found the bucket at a disk whose \<open>StatVol\<close> of the
  bucket returns no error.
\<close>

definition statVolSkipped :: "string \<Rightarrow> disk option \<Rightarrow> bool" where
  "statVolSkipped bucket disk =
     (case disk of
        None \<Rightarrow> True
      | Some d \<Rightarrow> isErrIgnored (snd (fst (StatVol d bucket))) bucketMetadataOpIgnoredErrs)"

definition statVolSucceeds :: "string \<Rightarrow> disk option \<Rightarrow> bool" where
  "statVolSucceeds bucket disk =
     (case disk of None \<Rightarrow> False | Some d \<Rightarrow> snd (fst (StatVol d bucket)) = None)"

section \<open>Concrete disks and package members\<close>

text \<open>
  A disk that holds nothing: it creates a volume once, and every read, listing and removal
  fails because the volume is not there.
\<close>

definition emptyDisk :: disk where
  "emptyDisk =
     \<lparr>onDiskInfo = (\<lambda>h. (\<lparr>Total = 100, Free = 40, FSType = ''ext4''\<rparr>, None)),
      onMakeVol = (\<lambda>h v. if CallMakeVol v \<in> set h then Some errVolumeExists else None),
      onListVols = (\<lambda>h. ([], None)),
      onStatVol = (\<lambda>h v. (\<lparr>Name = [], Created = 0\<rparr>, Some errVolumeNotFound)),
      onDeleteVol = (\<lambda>h v. Some errVolumeNotFound),
      onListDir = (\<lambda>h v p. ([], Some errVolumeNotFound)),
      onReadFile = (\<lambda>h v p off k. Some (0, [], Some errVolumeNotFound)),
      onReadAll = (\<lambda>h v p. ([], Some errVolumeNotFound)),
      onAppendFile = (\<lambda>h v p b. Some errVolumeNotFound),
      onRenameFile = (\<lambda>h sv sp dv dp. Some errVolumeNotFound),
      onStatFile = (\<lambda>h v p. (\<lparr>FileSize = 0, FileModTime = 0\<rparr>, Some errVolumeNotFound)),
      onDeleteFile = (\<lambda>h v p. Some errVolumeNotFound),
      calls = []\<rparr>"

text \<open>
  A disk on which every file holds the three bytes \<open>abc\<close>. Its \<open>ReadFile\<close> reads as Go's
  \<open>io.ReadFull\<close> does: the error is \<open>io.EOF\<close> only if no byte was read (the read starts at
  the end of the file), and \<open>io.ErrUnexpectedEOF\<close> if the file ends after some bytes and
  before the buffer is full.
\<close>

definition abcDisk :: disk where
  "abcDisk = emptyDisk\<lparr>onReadFile :=
     (\<lambda>h v p off k.
        if k = 0 then Some (0, [], None)
        else if drop (nat off) ''abc'' = [] then Some (0, [], Some EOF)
        else if k \<le> length (drop (nat off) ''abc'')
        then Some (int k, take k (drop (nat off) ''abc''), None)
        else Some (int (length (drop (nat off) ''abc'')), drop (nat off) ''abc'',
                   Some ErrUnexpectedEOF))\<rparr>"

definition exampleServer :: storageServer where
  "exampleServer = \<lparr>storage = abcDisk, path = ''/mnt/disk1''\<rparr>"

text \<open>A lower-case letter or a digit; two dots in a row.\<close>

definition lowerOrDigit :: "char \<Rightarrow> bool" where
  "lowerOrDigit c = ((CHR ''a'' \<le> c \<and> c \<le> CHR ''z'') \<or> (CHR ''0'' \<le> c \<and> c \<le> CHR ''9''))"

fun consecutiveDots :: "string \<Rightarrow> bool" where
  "consecutiveDots (a # b # cs) = ((a = CHR ''.'' \<and> b = CHR ''.'') \<or> consecutiveDots (b # cs))"
| "consecutiveDots cs = False"

text \<open>
  Modelled from the spec: \<open>IsValidBucketName\<close> is not in the files at hand. The
  specification: ``Bucket names match \<open>^[a-z0-9][a-z0-9.\-]{1,61}[a-z0-9]$\<close> with no
  consecutive dots''.
\<close>

definition specValidBucketName :: "string \<Rightarrow> bool" where
  "specValidBucketName b =
     (3 \<le> length b \<and> length b \<le> 63 \<and> lowerOrDigit (hd b) \<and> lowerOrDigit (last b)
      \<and> list_all (\<lambda>c. lowerOrDigit c \<or> c = CHR ''.'' \<or> c = CHR ''-'') b
      \<and> \<not> consecutiveDots b)"

text \<open>
  Modelled from the spec: \<open>toObjectErr\<close> is not in the files at hand. The specification
  names the object-layer error kinds \<open>BucketExists\<close>, \<open>BucketNotFound\<close> and \<open>WriteQuorum\<close>;
  a storage error about a volume becomes the error about the bucket named by the first
  parameter, any other error is passed on.
\<close>

definition specToObjectErr :: "error \<Rightarrow> string list \<Rightarrow> error" where
  "specToObjectErr err params =
     (if err = errVolumeExists \<and> params \<noteq> [] then BucketExists (hd params)
      else if err = errVolumeNotFound \<and> params \<noteq> [] then BucketNotFound (hd params)
      else if err = errXLWriteQuorum then WriteQuorum
      else err)"

text \<open>
  Modelled from the spec: \<open>reduceErrs\<close> is not in the files at hand. The specification:
  ``\<open>reduceErrs(errs, ignored)\<close> returns the modal error among non-ignored entries''. The
  entries are the per-disk results, \<open>nil\<close> among them; of several entries that occur most
  often, this one returns the earliest.
\<close>

definition specReduceErrs :: "error option list \<Rightarrow> error list \<Rightarrow> error option" where
  "specReduceErrs errs ignoredErrs =
     (let es = filter (\<lambda>e. \<not> isErrIgnored e ignoredErrs) errs
      in fold (\<lambda>e best. if count_list es best < count_list es e then e else best) (rev es) None)"

text \<open>
  Modelled from the spec: \<open>cleanupDir\<close> is not in the files at hand. The specification:
  ``also purge the multipart meta subtree for this bucket''. This one lists the directory of
  the bucket below \<open>dirPath\<close>, is done when the directory is not there or is empty, and
  otherwise removes the first entry.
\<close>

definition specCleanupDir :: "disk \<Rightarrow> string \<Rightarrow> string \<Rightarrow> error option \<times> disk" where
  "specCleanupDir d volume dirPath =
     (case ListDir d volume dirPath of
        ((entries, err), d1) \<Rightarrow>
          if err = Some errFileNotFound then (None, d1)
          else if err \<noteq> None then (err, d1)
          else (case entries of
                  [] \<Rightarrow> (None, d1)
                | entry # rest \<Rightarrow> DeleteFile d1 volume (dirPath @ ''/'' @ entry)))"

definition examplePkg :: pkg where
  "examplePkg =
     \<lparr>IsValidBucketName = specValidBucketName,
      toObjectErr = specToObjectErr,
      reduceErrs = specReduceErrs,
      cleanupDir = specCleanupDir,
      minioMetaBucket = ''.minio'',
      mpartMetaPath = ''.minio/multipart'',
      getOpsID = [],
      isRPCTokenValid = (\<lambda>t. t = ''secret''),
      maxAlloc = 1000\<rparr>"

text \<open>Requests to the storage RPC server.\<close>

definition noToken :: GenericVolArgs where
  "noToken = \<lparr>Token = [], Vol = ''bucket''\<rparr>"

definition wrongToken :: GenericArgs where
  "wrongToken = \<lparr>Token = ''guess''\<rparr>"

definition wrongTokenVol :: GenericVolArgs where
  "wrongTokenVol = \<lparr>Token = ''guess'', Vol = ''bucket''\<rparr>"

definition wrongTokenFile :: StatFileArgs where
  "wrongTokenFile = \<lparr>Token = ''guess'', Vol = ''bucket'', Path = ''object/part.1''\<rparr>"

definition wrongTokenRead :: ReadFileArgs where
  "wrongTokenRead =
     \<lparr>Token = ''guess'', Vol = ''bucket'', Path = ''object/part.1'', Offset = 0, Size = 5\<rparr>"

definition wrongTokenAppend :: AppendFileArgs where
  "wrongTokenAppend =
     \<lparr>Token = ''guess'', Vol = ''bucket'', Path = ''object/part.1'', Buffer = ''xyz''\<rparr>"

definition wrongTokenRename :: RenameFileArgs where
  "wrongTokenRename =
     \<lparr>Token = ''guess'', SrcVol = ''.minio'', SrcPath = ''tmp/1/part.1'', DstVol = ''bucket'',
      DstPath = ''object/part.1''\<rparr>"

definition readFive :: ReadFileArgs where
  "readFive =
     \<lparr>Token = ''secret'', Vol = ''bucket'', Path = ''object/part.1'', Offset = 0, Size = 5\<rparr>"

definition readAtEnd :: ReadFileArgs where
  "readAtEnd =
     \<lparr>Token = ''secret'', Vol = ''bucket'', Path = ''object/part.1'', Offset = 3, Size = 5\<rparr>"

definition readNegative :: ReadFileArgs where
  "readNegative =
     \<lparr>Token = ''secret'', Vol = ''bucket'', Path = ''object/part.1'', Offset = 0, Size = - 1\<rparr>"

text \<open>
  A disk that keeps volumes: it starts with the volumes \<open>vs\<close>; \<open>MakeVol\<close> adds one and
  \<open>DeleteVol\<close> removes one, so its volumes are a function of the calls it has received.
  It has no multipart directory.
\<close>

definition volsAfter :: "string list \<Rightarrow> storageCall list \<Rightarrow> string list" where
  "volsAfter vs h =
     fold (\<lambda>c vols. case c of
                       CallMakeVol v \<Rightarrow> (if v \<in> set vols then vols else vols @ [v])
                     | CallDeleteVol v \<Rightarrow> removeAll v vols
                     | _ \<Rightarrow> vols) h vs"

definition volumesDisk :: "string list \<Rightarrow> disk" where
  "volumesDisk vs =
     emptyDisk\<lparr>
       onMakeVol := (\<lambda>h v. if v \<in> set (volsAfter vs h) then Some errVolumeExists else None),
       onListVols := (\<lambda>h. (map (\<lambda>v. \<lparr>Name = v, Created = 0\<rparr>) (volsAfter vs h), None)),
       onStatVol := (\<lambda>h v. if v \<in> set (volsAfter vs h) then (\<lparr>Name = v, Created = 0\<rparr>, None)
                            else (\<lparr>Name = [], Created = 0\<rparr>, Some errVolumeNotFound)),
       onDeleteVol := (\<lambda>h v. if v \<in> set (volsAfter vs h) then None else Some errVolumeNotFound),
       onListDir := (\<lambda>h v p. ([], Some errFileNotFound))\<rparr>"

text \<open>A disk that answers every call with \<open>errFaultyDisk\<close>.\<close>

definition faultyDisk :: disk where
  "faultyDisk =
     \<lparr>onDiskInfo = (\<lambda>h. (\<lparr>Total = 0, Free = 0, FSType = []\<rparr>, Some errFaultyDisk)),
      onMakeVol = (\<lambda>h v. Some errFaultyDisk),
      onListVols = (\<lambda>h. ([], Some errFaultyDisk)),
      onStatVol = (\<lambda>h v. (\<lparr>Name = [], Created = 0\<rparr>, Some errFaultyDisk)),
      onDeleteVol = (\<lambda>h v. Some errFaultyDisk),
      onListDir = (\<lambda>h v p. ([], Some errFaultyDisk)),
      onReadFile = (\<lambda>h v p off k. Some (0, [], Some errFaultyDisk)),
      onReadAll = (\<lambda>h v p. ([], Some errFaultyDisk)),
      onAppendFile = (\<lambda>h v p b. Some errFaultyDisk),
      onRenameFile = (\<lambda>h sv sp dv dp. Some errFaultyDisk),
      onStatFile = (\<lambda>h v p. (\<lparr>FileSize = 0, FileModTime = 0\<rparr>, Some errFaultyDisk)),
      onDeleteFile = (\<lambda>h v p. Some errFaultyDisk),
      calls = []\<rparr>"

text \<open>
  A disk that keeps volumes and fails, like a faulty disk, when a directory is listed: the
  removal of a volume succeeds on it and the clean-up after it does not.
\<close>

definition cleanupFailsDisk :: "string list \<Rightarrow> disk" where
  "cleanupFailsDisk vs = (volumesDisk vs)\<lparr>onListDir := (\<lambda>h v p. ([], Some errFaultyDisk))\<rparr>"

text \<open>
  Four disks with a write quorum of three: one good disk, two faulty ones and one that
  is missing.
\<close>

definition xlOneGood :: xlObjects where
  "xlOneGood =
     \<lparr>storageDisks = [Some (volumesDisk []), Some faultyDisk, Some faultyDisk, None],
      writeQuorum = 3\<rparr>"


text \<open>Four disks, the first of which holds the bucket \<open>photos\<close>; two are faulty, one is missing.\<close>

definition xlOneHolds :: xlObjects where
  "xlOneHolds =
     \<lparr>storageDisks = [Some (volumesDisk [''photos'']), Some faultyDisk, Some faultyDisk, None],
      writeQuorum = 3\<rparr>"


text \<open>
  Two disks: the first, a replaced disk, holds only the meta volume; the second holds the
  buckets \<open>photos\<close> and \<open>backup\<close>.
\<close>

definition xlFreshFirst :: xlObjects where
  "xlFreshFirst =
     \<lparr>storageDisks = [Some (volumesDisk [''.minio'']),
                      Some (volumesDisk [''.minio'', ''photos'', ''backup''])],
      writeQuorum = 2\<rparr>"

text \<open>
  A remote disk that is not connected to yet when its first call arrives: it answers that
  call with \<open>errVolumeBusy\<close> and every later call as the disk \<open>d\<close> behind it does, which
  has not seen the first call.
\<close>

definition notYetConnected :: "disk \<Rightarrow> disk" where
  "notYetConnected d =
     \<lparr>onDiskInfo = (\<lambda>h. if h = [] then (\<lparr>Total = 0, Free = 0, FSType = []\<rparr>, Some errVolumeBusy)
                         else onDiskInfo d (tl h)),
      onMakeVol = (\<lambda>h v. if h = [] then Some errVolumeBusy else onMakeVol d (tl h) v),
      onListVols = (\<lambda>h. if h = [] then ([], Some errVolumeBusy) else onListVols d (tl h)),
      onStatVol = (\<lambda>h v. if h = [] then (\<lparr>Name = [], Created = 0\<rparr>, Some errVolumeBusy)
                          else onStatVol d (tl h) v),
      onDeleteVol = (\<lambda>h v. if h = [] then Some errVolumeBusy else onDeleteVol d (tl h) v),
      onListDir = (\<lambda>h v p. if h = [] then ([], Some errVolumeBusy) else onListDir d (tl h) v p),
      onReadFile = (\<lambda>h v p off k. if h = [] then Some (0, [], Some errVolumeBusy)
                                  else onReadFile d (tl h) v p off k),
      onReadAll = (\<lambda>h v p. if h = [] then ([], Some errVolumeBusy) else onReadAll d (tl h) v p),
      onAppendFile = (\<lambda>h v p b. if h = [] then Some errVolumeBusy else onAppendFile d (tl h) v p b),
      onRenameFile = (\<lambda>h sv sp dv dp. if h = [] then Some errVolumeBusy
                                      else onRenameFile d (tl h) sv sp dv dp),
      onStatFile = (\<lambda>h v p. if h = [] then (\<lparr>FileSize = 0, FileModTime = 0\<rparr>, Some errVolumeBusy)
                             else onStatFile d (tl h) v p),
      onDeleteFile = (\<lambda>h v p. if h = [] then Some errVolumeBusy else onDeleteFile d (tl h) v p),
      calls = []\<rparr>"

text \<open>
  Four disks that all hold the bucket \<open>photos\<close>; the first is a remote disk that is not
  connected to yet.
\<close>

definition xlFirstBusy :: xlObjects where
  "xlFirstBusy =
     \<lparr>storageDisks = [Some (notYetConnected (volumesDisk [''photos''])),
                      Some (volumesDisk [''photos'']),
                      Some (volumesDisk [''photos'']), Some (volumesDisk [''photos''])],
      writeQuorum = 3\<rparr>"
section \<open>Properties of the argument validation\<close>

lemma HasPrefix_iff_prefix: "HasPrefix s pre \<longleftrightarrow> prefix pre s"
proof
  assume "HasPrefix s pre"
  then have "take (length pre) s = pre" by (simp add: HasPrefix_def)
  then have "s = pre @ drop (length pre) s" by (metis append_take_drop_id)
  then show "prefix pre s" by (metis prefixI)
next
  assume "prefix pre s"
  then obtain t where "s = pre @ t" by (auto elim: prefixE)
  then show "HasPrefix s pre" by (simp add: HasPrefix_def)
qed

text \<open>
  C1. For every prefix, marker and delimiter and every non-negative \<open>maxKeys\<close>, the validation
  answers \<open>ErrNotImplemented\<close> exactly when the delimiter is neither empty nor \<open>"/"\<close>, or the
  marker is non-empty and the prefix is not a prefix of it; in every other case it answers
  \<open>ErrNone\<close>.
\<close>

theorem listObjectsValidateArgs_NotImplemented_iff:
  assumes "0 \<le> maxKeys"
  shows "(listObjectsValidateArgs pre marker delimiter maxKeys = ErrNotImplemented
            \<longleftrightarrow> (delimiter \<noteq> [] \<and> delimiter \<noteq> ''/'') \<or> (marker \<noteq> [] \<and> \<not> prefix pre marker))
         \<and> (listObjectsValidateArgs pre marker delimiter maxKeys \<noteq> ErrNotImplemented
            \<longrightarrow> listObjectsValidateArgs pre marker delimiter maxKeys = ErrNone)"
  using assms by (auto simp: listObjectsValidateArgs_def HasPrefix_iff_prefix)

theorem listObjectsValidateArgs_NotImplemented_iff_witness:
  "(0::int) \<le> 0
   \<and> listObjectsValidateArgs ''asia'' ''europe-object'' [] 0 = ErrNotImplemented
   \<and> \<not> prefix ''asia'' ''europe-object''
   \<and> listObjectsValidateArgs [] [] ''*'' 0 = ErrNotImplemented
   \<and> listObjectsValidateArgs ''new'' ''newPrefix0'' ''/'' 3 \<noteq> ErrNotImplemented
   \<and> listObjectsValidateArgs ''new'' ''newPrefix0'' ''/'' 3 = ErrNone"
  using listObjectsValidateArgs_NotImplemented_iff [of 0 "''asia''" "''europe-object''" "[]"]
    listObjectsValidateArgs_NotImplemented_iff [of 0 "[]" "[]" "''*''"]
    listObjectsValidateArgs_NotImplemented_iff [of 3 "''new''" "''newPrefix0''" "''/''"]
  by (simp add: prefix_def)

text \<open>
  C2, as the specification states it, does not hold: a request with \<open>max-keys=-1\<close> that has
  passed authentication is answered with the error \<open>ErrInvalidMaxKeys\<close> by both handlers, and
  the object layer, which would have clamped the value, is not called.
\<close>

theorem negative_maxKeys_rejected_counterexample:
  "reqMaxKeys negativeMaxKeysRequest < 0
   \<and> ListObjectsV1Handler (Some clampingObjectLayer) unitToAPIErrorCode negativeMaxKeysRequest
       = (ErrorResponse ErrInvalidMaxKeys, [])
   \<and> ListObjectsV2Handler (Some clampingObjectLayer) unitToAPIErrorCode negativeMaxKeysRequest
       = (ErrorResponse ErrInvalidMaxKeys, [])
   \<and> ListObjectsV1Handler (Some clampingObjectLayer) unitToAPIErrorCode negativeMaxKeysRequest
       \<noteq> (SuccessResponse 10000, [ListObjectsCall ''bucket'' [] [] [] (- 1)])"
  by (simp add: negativeMaxKeysRequest_def ListObjectsV1Handler_def ListObjectsV2Handler_def
      listObjectsValidateArgs_def)

text \<open>
  C2, amended. For every list request with \<open>maxKeys < 0\<close>, the argument validation answers
  \<open>ErrInvalidMaxKeys\<close>; a request that reaches the validation is answered with that error by
  both handlers; and no request with a negative \<open>maxKeys\<close> leads to a call of the object
  layer's \<open>ListObjects\<close>, whatever the object layer is.
\<close>

theorem negative_maxKeys_rejected:
  assumes "reqMaxKeys r < 0"
  shows "listObjectsValidateArgs pre marker delimiter (reqMaxKeys r) = ErrInvalidMaxKeys
    \<and> (reachesValidation r \<longrightarrow>
           ListObjectsV1Handler (Some lo) toAPIErrorCode r = (ErrorResponse ErrInvalidMaxKeys, [])
         \<and> ListObjectsV2Handler (Some lo) toAPIErrorCode r = (ErrorResponse ErrInvalidMaxKeys, []))
    \<and> snd (ListObjectsV1Handler objectAPI toAPIErrorCode r) = []
    \<and> snd (ListObjectsV2Handler objectAPI toAPIErrorCode r) = []
    \<and> (\<exists>code. fst (ListObjectsV1Handler objectAPI toAPIErrorCode r) = ErrorResponse code
                \<and> code \<noteq> ErrNone)
    \<and> (\<exists>code. fst (ListObjectsV2Handler objectAPI toAPIErrorCode r) = ErrorResponse code
                \<and> code \<noteq> ErrNone)"
  using assms
  by (auto simp: listObjectsValidateArgs_def ListObjectsV1Handler_def ListObjectsV2Handler_def
      reachesValidation_def Let_def split: option.splits)

theorem negative_maxKeys_rejected_witness:
  "reqMaxKeys negativeMaxKeysRequest < 0 \<and> reachesValidation negativeMaxKeysRequest
   \<and> listObjectsValidateArgs [] [] [] (reqMaxKeys negativeMaxKeysRequest) = ErrInvalidMaxKeys
   \<and> ListObjectsV1Handler (Some clampingObjectLayer) unitToAPIErrorCode negativeMaxKeysRequest
       = (ErrorResponse ErrInvalidMaxKeys, [])
   \<and> ListObjectsV2Handler (Some clampingObjectLayer) unitToAPIErrorCode negativeMaxKeysRequest
       = (ErrorResponse ErrInvalidMaxKeys, [])"
proof -
  have neg: "reqMaxKeys negativeMaxKeysRequest < 0"
    by (simp add: negativeMaxKeysRequest_def)
  have reach: "reachesValidation negativeMaxKeysRequest"
    by (simp add: negativeMaxKeysRequest_def reachesValidation_def)
  show ?thesis
    using neg reach
      negative_maxKeys_rejected [OF neg, of "[]" "[]" "[]" clampingObjectLayer
        unitToAPIErrorCode "Some clampingObjectLayer"]
    by simp
qed

section \<open>Properties of the connection multiplexer\<close>

lemma prefix_zero_padding:
  assumes "CHR 0x00 \<notin> set m"
  shows "prefix m (d @ replicate k (CHR 0x00)) \<longleftrightarrow> prefix m d"
proof
  assume "prefix m (d @ replicate k (CHR 0x00))"
  then consider "prefix m d" | us where "m = d @ us" "prefix us (replicate k (CHR 0x00))"
    by (auto simp: prefix_append)
  then show "prefix m d"
  proof cases
    case 1
    then show ?thesis .
  next
    case 2
    have "us = []"
    proof (rule ccontr)
      assume "us \<noteq> []"
      then have "hd us \<in> set us" by simp
      moreover have "set us \<subseteq> set (replicate k (CHR 0x00))"
        using 2(2) by (rule set_mono_prefix)
      ultimately have "hd us = CHR 0x00" by auto
      with \<open>hd us \<in> set us\<close> 2(1) assms show False by auto
    qed
    with 2(1) show ?thesis by simp
  qed
next
  assume "prefix m d"
  then show "prefix m (d @ replicate k (CHR 0x00))" by (rule prefix_prefix)
qed

lemma methods_no_zero:
  "m \<in> set defaultHTTP1Methods \<or> m \<in> set defaultHTTP2Methods \<Longrightarrow> CHR 0x00 \<notin> set m"
  by (auto simp: defaultHTTP1Methods_def defaultHTTP2Methods_def)

lemma longestWord_7: "longestWord strings = 7"
  by (simp add: longestWord_def defaultHTTP1Methods_def defaultHTTP2Methods_def)

lemma NewMuxConn_buffer: "buffer (dataBuf (NewMuxConn c)) = make_bytes 8"
  by (simp add: NewMuxConn_def longestWord_7)

lemma NewMuxConn_fields:
  "Conn (NewMuxConn c) = c" "unRead (dataBuf (NewMuxConn c)) = False"
  "offset (dataBuf (NewMuxConn c)) = 0" "lastError (NewMuxConn c) = None"
  by (simp_all add: NewMuxConn_def Let_def)

lemma connRead_some_bytes:
  assumes "connRead c b = (n, err, buf, c')" and "0 < n"
  shows "\<exists>seg. seg \<noteq> [] \<and> n = min (length b) (length seg) \<and> err = None
               \<and> buf = take n seg @ drop n b"
proof (cases "filter (\<lambda>s. s \<noteq> []) (segments c)")
  case Nil
  with assms show ?thesis by (auto simp: connRead_def split: if_splits)
next
  case (Cons seg rest)
  then have "seg \<in> set (filter (\<lambda>s. s \<noteq> []) (segments c))" by simp
  then have "seg \<noteq> []" by simp
  moreover have "n = min (length b) (length seg) \<and> err = None \<and> buf = take n seg @ drop n b"
    using assms Cons by (auto simp: connRead_def Let_def split: if_splits)
  ultimately show ?thesis by blast
qed

lemma PeekProtocol_result:
  assumes "connRead c (buffer (dataBuf (NewMuxConn c))) = (n, err, buf, c')" and "0 < n"
  shows "fst (PeekProtocol (NewMuxConn c)) =
           (if \<exists>m\<in>set defaultHTTP1Methods. prefix m (take n buf) then ''http''
            else if prefix ''PRI'' (take n buf) then ''http2''
            else ''tls'')"
proof -
  from connRead_some_bytes [OF assms] obtain seg where
    seg: "n = min (length (make_bytes 8)) (length seg)" "err = None"
      "buf = take n seg @ drop n (make_bytes 8)"
    by (auto simp: NewMuxConn_buffer)
  have n8: "n \<le> 8" and nseg: "n \<le> length seg" using seg(1) by (simp_all add: make_bytes_def)
  have buf: "buf = take n buf @ replicate (8 - n) (CHR 0x00)"
    using seg(3) nseg by (simp add: make_bytes_def min_def)
  have pad: "prefix m buf \<longleftrightarrow> prefix m (take n buf)"
    if "m \<in> set defaultHTTP1Methods \<or> m \<in> set defaultHTTP2Methods" for m
    using prefix_zero_padding [OF methods_no_zero [OF that], of "take n buf" "8 - n"] buf
    by simp
  have h1: "list_ex (\<lambda>m. HasPrefix buf m) defaultHTTP1Methods
              \<longleftrightarrow> (\<exists>m\<in>set defaultHTTP1Methods. prefix m (take n buf))"
    using pad by (auto simp: list_ex_iff HasPrefix_iff_prefix)
  have h2: "list_ex (\<lambda>m. HasPrefix buf m) defaultHTTP2Methods \<longleftrightarrow> prefix ''PRI'' (take n buf)"
    using pad [of "''PRI''"] by (simp add: defaultHTTP2Methods_def HasPrefix_iff_prefix)
  show ?thesis
    using assms(1) \<open>0 < n\<close> seg(2) h1 h2
    by (simp add: PeekProtocol_def NewMuxConn_fields Let_def)
qed

lemma PRI_excludes_HTTP1:
  assumes "prefix ''PRI'' s"
  shows "\<not> (\<exists>m\<in>set defaultHTTP1Methods. prefix m s)"
proof -
  from assms obtain t where "s = ''PRI'' @ t" by (auto elim: prefixE)
  then show ?thesis by (simp add: defaultHTTP1Methods_def)
qed

text \<open>
  C9. For every accepted connection whose first read delivers at least one byte (\<open>n > 0\<close>
  bytes, the peeked bytes \<open>take n buf\<close>), \<open>PeekProtocol\<close> answers \<open>"http"\<close> exactly when the
  peeked bytes begin with one of the HTTP/1 method tokens, \<open>"http2"\<close> exactly when they
  begin with \<open>"PRI"\<close>, and \<open>"tls"\<close> exactly in every other case.
\<close>

theorem PeekProtocol_classifies:
  assumes "connRead c (buffer (dataBuf (NewMuxConn c))) = (n, err, buf, c')" and "0 < n"
  shows "(fst (PeekProtocol (NewMuxConn c)) = ''http''
            \<longleftrightarrow> (\<exists>m\<in>set defaultHTTP1Methods. prefix m (take n buf)))
       \<and> (fst (PeekProtocol (NewMuxConn c)) = ''http2'' \<longleftrightarrow> prefix ''PRI'' (take n buf))
       \<and> (fst (PeekProtocol (NewMuxConn c)) = ''tls''
            \<longleftrightarrow> \<not> (\<exists>m\<in>set defaultHTTP1Methods. prefix m (take n buf))
                \<and> \<not> prefix ''PRI'' (take n buf))"
  using PeekProtocol_result [OF assms] PRI_excludes_HTTP1 [of "take n buf"]
  by (auto split: if_splits)

theorem PeekProtocol_classifies_witness:
  "connRead getRequest (buffer (dataBuf (NewMuxConn getRequest)))
     = (8, None, ''GET / HT'', \<lparr>segments = [''TP/1.1''], closeErr = EOF\<rparr>)
   \<and> (0::nat) < 8
   \<and> prefix ''GET'' (take 8 ''GET / HT'')
   \<and> fst (PeekProtocol (NewMuxConn getRequest)) = ''http''"
proof -
  have r: "connRead getRequest (buffer (dataBuf (NewMuxConn getRequest)))
     = (8, None, ''GET / HT'', \<lparr>segments = [''TP/1.1''], closeErr = EOF\<rparr>)"
    by (simp add: NewMuxConn_buffer getRequest_def connRead_def make_bytes_def)
  have p: "prefix ''GET'' (take 8 ''GET / HT'')" by simp
  have m: "\<exists>m\<in>set defaultHTTP1Methods. prefix m (take 8 ''GET / HT'')"
    by (simp add: defaultHTTP1Methods_def)
  have "fst (PeekProtocol (NewMuxConn getRequest)) = ''http''"
    using PeekProtocol_classifies [OF r, THEN conjunct1] m by simp
  with r p show ?thesis by simp
qed

subsection \<open>What the replay delivers\<close>

text \<open>
  Every \<open>Read\<close> hands out the next bytes of \<open>pending\<close>, so the bytes of any sequence of
  reads are a prefix of what was pending after the peek: the eight bytes of the peek buffer
  (the \<open>n\<close> bytes read, then \<open>8 - n\<close> zero bytes), then the rest of the connection. When
  the peek has filled the buffer (\<open>n = 8\<close>) this is the connection's own byte stream.
\<close>

lemma concat_filter_nonempty: "concat (filter (\<lambda>s. s \<noteq> []) xs) = concat xs"
  by (induction xs) auto

lemma connRead_stream:
  assumes "connRead c b = (n, err, b', c')"
  shows "take n b' @ connStream c' = connStream c" and "n \<le> length b" and "length b' = length b"
proof -
  have "take n b' @ connStream c' = connStream c \<and> n \<le> length b \<and> length b' = length b"
  proof (cases "filter (\<lambda>s. s \<noteq> []) (segments c)")
    case Nil
    with assms show ?thesis by (auto simp: connRead_def split: if_splits)
  next
    case (Cons seg rest)
    have cc: "connStream c = seg @ concat rest"
      using concat_filter_nonempty [of "segments c"] Cons by (simp add: connStream_def)
    show ?thesis
    proof (cases "b = []")
      case True
      with assms show ?thesis by (auto simp: connRead_def)
    next
      case False
      with assms Cons cc show ?thesis
        by (auto simp: connRead_def Let_def connStream_def min_def split: if_splits)
    qed
  qed
  then show "take n b' @ connStream c' = connStream c" and "n \<le> length b" and "length b' = length b"
    by simp_all
qed

lemma Read_pending:
  assumes "Read c b0 = (n, err, b, c')"
  shows "take n b @ pending c' = pending c"
proof (cases "unRead (dataBuf c)")
  case False
  obtain n1 e1 b1 conn1 where r: "connRead (Conn c) b0 = (n1, e1, b1, conn1)"
    by (metis prod_cases4)
  with assms False have "n = n1" "b = b1" "c' = c\<lparr>Conn := conn1\<rparr>"
    by (simp_all add: Read_def)
  with connRead_stream(1) [OF r] False show ?thesis by (simp add: pending_def)
next
  case True
  define src where "src = drop (offset (dataBuf c)) (buffer (dataBuf c))"
  define k where "k = min (length b0) (length src)"
  define b1 where "b1 = take k src @ drop k b0"
  have cp: "copy b0 src = (k, b1)" by (simp add: copy_def k_def b1_def Let_def)
  have pc: "pending c = src @ connStream (Conn c)" using True by (simp add: pending_def src_def)
  show ?thesis
  proof (cases "offset (dataBuf c) + k = length (buffer (dataBuf c))")
    case notend: False
    with assms True cp have "n = k" "b = b1" 
      "c' = c\<lparr>dataBuf := (dataBuf c)\<lparr>offset := offset (dataBuf c) + k\<rparr>\<rparr>"
      by (auto simp: Read_def src_def [symmetric] Let_def)
    moreover have "drop (offset (dataBuf c) + k) (buffer (dataBuf c)) = drop k src"
      by (simp add: src_def add.commute)
    moreover have "take k b1 = take k src" by (simp add: b1_def k_def)
    ultimately show ?thesis using True pc
      by (simp add: pending_def)
  next
    case atend: True
    then have ksrc: "k = length src" by (simp add: src_def)
    show ?thesis
    proof (cases "k < length b0")
      case False
      with assms True cp atend have "n = k" "b = b1"
        "c' = c\<lparr>dataBuf := (dataBuf c)\<lparr>offset := 0, unRead := False\<rparr>\<rparr>"
        by (auto simp: Read_def src_def [symmetric] Let_def)
      then show ?thesis using pc ksrc by (simp add: pending_def b1_def)
    next
      case lt: True
      obtain nr e1 tmp conn1 where r: "connRead (Conn c) (make_bytes (length b0 - k - 1)) = (nr, e1, tmp, conn1)"
        by (metis prod_cases4)
      with assms True cp atend lt have res: "n = k + nr"
        "b = take k b1 @ tmp @ drop (k + length tmp) b1"
        "c' = c\<lparr>dataBuf := (dataBuf c)\<lparr>offset := 0, unRead := False\<rparr>, Conn := conn1\<rparr>"
        by (auto simp: Read_def src_def [symmetric] Let_def)
      have "length (take k b1) = k" using lt by (simp add: b1_def k_def)
      moreover have "nr \<le> length tmp"
        using connRead_stream(2,3) [OF r] by simp
      ultimately have "take n b = take k b1 @ take nr tmp"
        using res(1,2) by simp
      moreover have "take k b1 = src" using ksrc by (simp add: b1_def)
      ultimately show ?thesis
        using connRead_stream(1) [OF r] res(3) pc by (simp add: pending_def)
    qed
  qed
qed

lemma muxStream_prefix_pending: "prefix (muxStream c ks) (pending c)"
proof (induction ks arbitrary: c)
  case Nil
  show ?case by simp
next
  case (Cons k ks)
  obtain n err b c' where r: "Read c (make_bytes k) = (n, err, b, c')"
    by (metis prod_cases4)
  from Read_pending [OF r] have "pending c = take n b @ pending c'" by simp
  with Cons [of c'] r show ?case by simp
qed

lemma NewMuxConn_eq:
  "NewMuxConn c = \<lparr>Conn = c, lastError = None,
                    dataBuf = \<lparr>buffer = make_bytes 8, unRead = False, offset = 0\<rparr>\<rparr>"
  by (simp add: NewMuxConn_def longestWord_7)

lemma PeekProtocol_pending:
  assumes "connRead c (make_bytes 8) = (n, err, buf, c')" and "0 < n"
  shows "pending (snd (PeekProtocol (NewMuxConn c)))
           = take n buf @ replicate (8 - n) (CHR 0x00) @ connStream c'"
proof -
  from connRead_some_bytes [OF assms] obtain seg where
    seg: "n = min (length (make_bytes 8)) (length seg)" "err = None"
      "buf = take n seg @ drop n (make_bytes 8)"
    by auto
  have nseg: "n \<le> length seg" using seg(1) by simp
  have buf: "buf = take n buf @ replicate (8 - n) (CHR 0x00)"
    using seg(3) nseg by (simp add: make_bytes_def min_def)
  have "snd (PeekProtocol (NewMuxConn c)) =
          (NewMuxConn c)\<lparr>Conn := c', lastError := None,
             dataBuf := \<lparr>buffer = buf, unRead = True, offset = 0\<rparr>\<rparr>"
    using assms seg(2)
    by (simp add: PeekProtocol_def NewMuxConn_eq Let_def)
  then show ?thesis using buf by (simp add: pending_def)
qed

lemma MuxConn_replay:
  assumes "connRead c (make_bytes 8) = (n, err, buf, c')" and "0 < n"
  shows "prefix (muxStream (snd (PeekProtocol (NewMuxConn c))) ks)
           (take n buf @ replicate (8 - n) (CHR 0x00) @ connStream c')"
    and "take n buf @ connStream c' = connStream c"
    and "n = 8 \<Longrightarrow> prefix (muxStream (snd (PeekProtocol (NewMuxConn c))) ks) (connStream c)"
proof -
  show p: "prefix (muxStream (snd (PeekProtocol (NewMuxConn c))) ks)
           (take n buf @ replicate (8 - n) (CHR 0x00) @ connStream c')"
    using muxStream_prefix_pending [of "snd (PeekProtocol (NewMuxConn c))" ks]
      PeekProtocol_pending [OF assms] by simp
  show s: "take n buf @ connStream c' = connStream c"
    using connRead_stream(1) [OF assms(1)] .
  show "prefix (muxStream (snd (PeekProtocol (NewMuxConn c))) ks) (connStream c)" if "n = 8"
    using p s that by simp
qed

text \<open>
  C8 fails on the code. \<open>PeekProtocol\<close> reads into a buffer of eight bytes and \<open>Read\<close>
  replays all eight, whatever the number of bytes the peek has read. On a connection whose
  first piece is \<open>"GET"\<close> and whose second is \<open>" / HTTP/1.1"\<close>, a \<open>Read\<close> into a slice of
  sixteen bytes yields \<open>"GET"\<close>, five zero bytes that the peer never sent, and \<open>" / HTTP"\<close>:
  not a prefix of the connection's byte stream.
\<close>

theorem MuxConn_Read_short_peek:
  "fst (PeekProtocol (NewMuxConn shortFirstSegment)) = ''http''
   \<and> connStream shortFirstSegment = ''GET / HTTP/1.1''
   \<and> muxStream (snd (PeekProtocol (NewMuxConn shortFirstSegment))) [16]
       = ''GET'' @ [CHR 0x00, CHR 0x00, CHR 0x00, CHR 0x00, CHR 0x00] @ '' / HTTP''
   \<and> \<not> prefix (muxStream (snd (PeekProtocol (NewMuxConn shortFirstSegment))) [16])
          (connStream shortFirstSegment)"
  by (simp add: shortFirstSegment_def NewMuxConn_def PeekProtocol_def longestWord_def
      defaultHTTP1Methods_def defaultHTTP2Methods_def make_bytes_def connRead_def Read_def
      copy_def HasPrefix_def Let_def connStream_def)

section \<open>Properties of the storage RPC handlers\<close>

lemma length_make_bytes [simp]: "length (make_bytes n) = n"
  by (simp add: make_bytes_def)

text \<open>
  C6. Each of the twelve storage handlers, on a request whose token \<open>isRPCTokenValid\<close> does
  not accept, returns \<open>errInvalidToken\<close> and leaves the reply and the server as they were:
  the disk behind the server has recorded no call.
\<close>

theorem handlers_reject_invalid_token:
  "(\<not> isRPCTokenValid pk (Token a1) \<longrightarrow> DiskInfoHandler pk s a1 r1 = (Some errInvalidToken, r1, s))
   \<and> (\<not> isRPCTokenValid pk (Token a2) \<longrightarrow> MakeVolHandler pk s a2 r2 = (Some errInvalidToken, r2, s))
   \<and> (\<not> isRPCTokenValid pk (Token a3) \<longrightarrow> ListVolsHandler pk s a3 r3 = (Some errInvalidToken, r3, s))
   \<and> (\<not> isRPCTokenValid pk (Token a4) \<longrightarrow> StatVolHandler pk s a4 r4 = (Some errInvalidToken, r4, s))
   \<and> (\<not> isRPCTokenValid pk (Token a5) \<longrightarrow> DeleteVolHandler pk s a5 r5 = (Some errInvalidToken, r5, s))
   \<and> (\<not> isRPCTokenValid pk (Token a6) \<longrightarrow> StatFileHandler pk s a6 r6 = (Some errInvalidToken, r6, s))
   \<and> (\<not> isRPCTokenValid pk (Token a7) \<longrightarrow> ListDirHandler pk s a7 r7 = (Some errInvalidToken, r7, s))
   \<and> (\<not> isRPCTokenValid pk (Token a8) \<longrightarrow> ReadAllHandler pk s a8 r8 = (Some errInvalidToken, r8, s))
   \<and> (\<not> isRPCTokenValid pk (Token a9) \<longrightarrow> ReadFileHandler pk s a9 r9 = (Some errInvalidToken, r9, s))
   \<and> (\<not> isRPCTokenValid pk (Token a10) \<longrightarrow>
         AppendFileHandler pk s a10 r10 = (Some errInvalidToken, r10, s))
   \<and> (\<not> isRPCTokenValid pk (Token a11) \<longrightarrow>
         DeleteFileHandler pk s a11 r11 = (Some errInvalidToken, r11, s))
   \<and> (\<not> isRPCTokenValid pk (Token a12) \<longrightarrow>
         RenameFileHandler pk s a12 r12 = (Some errInvalidToken, r12, s))"
  by (simp add: DiskInfoHandler_def MakeVolHandler_def ListVolsHandler_def StatVolHandler_def
      DeleteVolHandler_def StatFileHandler_def ListDirHandler_def ReadAllHandler_def
      ReadFileHandler_def ReadFileHandler_body_def AppendFileHandler_def DeleteFileHandler_def
      RenameFileHandler_def)

theorem handlers_reject_invalid_token_witness:
  "\<not> isRPCTokenValid examplePkg (Token wrongToken)
   \<and> \<not> isRPCTokenValid examplePkg (Token noToken)
   \<and> MakeVolHandler examplePkg exampleServer noToken () = (Some errInvalidToken, (), exampleServer)
   \<and> DiskInfoHandler examplePkg exampleServer wrongToken \<lparr>Total = 0, Free = 0, FSType = []\<rparr>
       = (Some errInvalidToken, \<lparr>Total = 0, Free = 0, FSType = []\<rparr>, exampleServer)
   \<and> MakeVolHandler examplePkg exampleServer wrongTokenVol () = (Some errInvalidToken, (), exampleServer)
   \<and> ListVolsHandler examplePkg exampleServer wrongToken \<lparr>Vols = []\<rparr>
       = (Some errInvalidToken, \<lparr>Vols = []\<rparr>, exampleServer)
   \<and> StatVolHandler examplePkg exampleServer wrongTokenVol \<lparr>Name = [], Created = 0\<rparr>
       = (Some errInvalidToken, \<lparr>Name = [], Created = 0\<rparr>, exampleServer)
   \<and> DeleteVolHandler examplePkg exampleServer wrongTokenVol ()
       = (Some errInvalidToken, (), exampleServer)
   \<and> StatFileHandler examplePkg exampleServer wrongTokenFile \<lparr>FileSize = 0, FileModTime = 0\<rparr>
       = (Some errInvalidToken, \<lparr>FileSize = 0, FileModTime = 0\<rparr>, exampleServer)
   \<and> ListDirHandler examplePkg exampleServer wrongTokenFile [] = (Some errInvalidToken, [], exampleServer)
   \<and> ReadAllHandler examplePkg exampleServer wrongTokenRead [] = (Some errInvalidToken, [], exampleServer)
   \<and> ReadFileHandler examplePkg exampleServer wrongTokenRead [] = (Some errInvalidToken, [], exampleServer)
   \<and> AppendFileHandler examplePkg exampleServer wrongTokenAppend ()
       = (Some errInvalidToken, (), exampleServer)
   \<and> DeleteFileHandler examplePkg exampleServer wrongTokenFile ()
       = (Some errInvalidToken, (), exampleServer)
   \<and> RenameFileHandler examplePkg exampleServer wrongTokenRename ()
       = (Some errInvalidToken, (), exampleServer)"
proof -
  have nv: "\<not> isRPCTokenValid examplePkg (Token wrongToken)"
    "\<not> isRPCTokenValid examplePkg (Token wrongTokenVol)"
    "\<not> isRPCTokenValid examplePkg (Token wrongTokenFile)"
    "\<not> isRPCTokenValid examplePkg (Token wrongTokenRead)"
    "\<not> isRPCTokenValid examplePkg (Token wrongTokenAppend)"
    "\<not> isRPCTokenValid examplePkg (Token wrongTokenRename)"
    "\<not> isRPCTokenValid examplePkg (Token noToken)"
    by (simp_all add: examplePkg_def wrongToken_def wrongTokenVol_def wrongTokenFile_def
        wrongTokenRead_def wrongTokenAppend_def wrongTokenRename_def noToken_def)
  show ?thesis
    using nv
      handlers_reject_invalid_token [of examplePkg wrongToken exampleServer
      "\<lparr>Total = 0, Free = 0, FSType = []\<rparr>" noToken "()" wrongToken "\<lparr>Vols = []\<rparr>"
      wrongTokenVol "\<lparr>Name = [], Created = 0\<rparr>" wrongTokenVol "()" wrongTokenFile
      "\<lparr>FileSize = 0, FileModTime = 0\<rparr>" wrongTokenFile "[]" wrongTokenRead "[]" wrongTokenRead "[]"
      wrongTokenAppend "()" wrongTokenFile "()" wrongTokenRename "()"]
      handlers_reject_invalid_token [of examplePkg wrongToken exampleServer
      "\<lparr>Total = 0, Free = 0, FSType = []\<rparr>" wrongTokenVol "()" wrongToken "\<lparr>Vols = []\<rparr>"
      wrongTokenVol "\<lparr>Name = [], Created = 0\<rparr>" wrongTokenVol "()" wrongTokenFile
      "\<lparr>FileSize = 0, FileModTime = 0\<rparr>" wrongTokenFile "[]" wrongTokenRead "[]" wrongTokenRead "[]"
      wrongTokenAppend "()" wrongTokenFile "()" wrongTokenRename "()"]
    by blast
qed

lemma readFive_valid: "isRPCTokenValid examplePkg (Token readFive) \<and> 0 \<le> Size readFive
      \<and> Size readFive \<le> maxAlloc examplePkg"
    by (simp add: examplePkg_def readFive_def)
lemma readNegative_panics: "fst (ReadFileHandler_body examplePkg exampleServer readNegative []) = Panics"
    by (simp add: ReadFileHandler_body_def examplePkg_def readNegative_def)
lemma exampleServer_calls: "calls (storage exampleServer) = []"
    and readFive_fields: "Vol readFive = ''bucket''" "Path readFive = ''object/part.1''"
      "Offset readFive = 0" "nat (Size readFive) = 5" "Size readFive = 5"
    by (simp_all add: exampleServer_def abcDisk_def emptyDisk_def readFive_def)
lemma exampleServer_onReadFile:
  "onReadFile (storage exampleServer) h v p off k =
     (if k = 0 then Some (0, [], None)
      else if drop (nat off) ''abc'' = [] then Some (0, [], Some EOF)
      else if k \<le> length (drop (nat off) ''abc'')
      then Some (int k, take k (drop (nat off) ''abc''), None)
      else Some (int (length (drop (nat off) ''abc'')), drop (nat off) ''abc'',
                 Some ErrUnexpectedEOF))"
  by (simp add: exampleServer_def abcDisk_def)

lemma readFive_short: "fst (ReadFile (storage exampleServer) (Vol readFive) (Path readFive)
                      (Offset readFive) (make_bytes (nat (Size readFive))))
                 = Some (3, ''abc'' @ [CHR 0x00, CHR 0x00], Some ErrUnexpectedEOF)"
    by (simp add: readFive_fields ReadFile_def exampleServer_onReadFile copy_def make_bytes_def numeral_eq_Suc)
text \<open>
  C7, as the specification states it, does not hold in its last part. A read of five bytes
  that starts at the end of a file of three bytes meets the end of the file before the
  buffer is filled; \<open>ReadFile\<close> reads no byte and returns \<open>io.EOF\<close>, which is not the error
  \<open>io.ErrUnexpectedEOF\<close> that the handler resets: the handler replies with the empty prefix
  of the buffer and returns the error \<open>io.EOF\<close>, not \<open>nil\<close>.
\<close>

theorem ReadFileHandler_end_of_file_counterexample:
  "isRPCTokenValid examplePkg (Token readAtEnd)
   \<and> fst (ReadFile (storage exampleServer) (Vol readAtEnd) (Path readAtEnd) (Offset readAtEnd)
            (make_bytes (nat (Size readAtEnd))))
       = Some (0, make_bytes 5, Some EOF)
   \<and> fst (ReadFileHandler examplePkg exampleServer readAtEnd []) = Some EOF
   \<and> fst (ReadFileHandler examplePkg exampleServer readAtEnd []) \<noteq> None
   \<and> fst (snd (ReadFileHandler examplePkg exampleServer readAtEnd [])) = []"
  by (simp add: ReadFileHandler_def ReadFileHandler_body_def ReadFile_def
      exampleServer_onReadFile readAtEnd_def examplePkg_def copy_def Let_def make_bytes_def)

text \<open>
  C7, amended. For every \<open>ReadFile\<close> request:
  \<^item> when the token is valid and the size can be allocated, the handler calls the disk's
    \<open>ReadFile\<close> once, with a buffer of exactly \<open>args.Size\<close> bytes, and any call that the
    handler makes to the disk is that one;
  \<^item> whenever the body panics, the handler returns the error \<open>bytes.ErrTooLarge\<close>; the body
    panics exactly when the token is valid and the size is negative or too large to
    allocate, or \<open>ReadFile\<close> panics, or \<open>ReadFile\<close> returns a count outside the buffer;
  \<^item> when \<open>ReadFile\<close> reports a short read by \<open>io.ErrUnexpectedEOF\<close> (the file has ended
    after some bytes and before the buffer is full), the handler returns no error and
    replies with the first \<open>n\<close> bytes of the buffer;
  \<^item> any other error of \<open>ReadFile\<close>, the \<open>io.EOF\<close> of a read that starts at the end of the
    file among them, is returned as it is, with the first \<open>n\<close> bytes of the buffer.
\<close>

theorem ReadFileHandler_buffer_panic_short_read:
  "(isRPCTokenValid pk (Token args) \<and> 0 \<le> Size args \<and> Size args \<le> maxAlloc pk \<longrightarrow>
      calls (storage (snd (snd (ReadFileHandler pk s args reply))))
        = calls (storage s)
            @ [CallReadFile (Vol args) (Path args) (Offset args) (nat (Size args))])
   \<and> (\<forall>c \<in> set (calls (storage (snd (snd (ReadFileHandler pk s args reply))))) - set (calls (storage s)).
         c = CallReadFile (Vol args) (Path args) (Offset args) (nat (Size args)))
   \<and> (fst (ReadFileHandler_body pk s args reply) = Panics \<longrightarrow>
         fst (ReadFileHandler pk s args reply) = Some ErrTooLarge)
   \<and> (fst (ReadFileHandler_body pk s args reply) = Panics \<longleftrightarrow>
         isRPCTokenValid pk (Token args)
         \<and> (Size args < 0 \<or> maxAlloc pk < Size args
            \<or> (case fst (ReadFile (storage s) (Vol args) (Path args) (Offset args)
                          (make_bytes (nat (Size args)))) of
                  None \<Rightarrow> True
                | Some (n, buf, err) \<Rightarrow> n < 0 \<or> Size args < n)))
   \<and> (isRPCTokenValid pk (Token args) \<and> 0 \<le> Size args \<and> Size args \<le> maxAlloc pk
        \<and> fst (ReadFile (storage s) (Vol args) (Path args) (Offset args)
                 (make_bytes (nat (Size args)))) = Some (n, buf, Some ErrUnexpectedEOF)
        \<and> 0 \<le> n \<and> n \<le> Size args \<longrightarrow>
         fst (ReadFileHandler pk s args reply) = None
         \<and> fst (snd (ReadFileHandler pk s args reply)) = take (nat n) buf
         \<and> int (length (fst (snd (ReadFileHandler pk s args reply)))) = n)
   \<and> (isRPCTokenValid pk (Token args) \<and> 0 \<le> Size args \<and> Size args \<le> maxAlloc pk
        \<and> fst (ReadFile (storage s) (Vol args) (Path args) (Offset args)
                 (make_bytes (nat (Size args)))) = Some (n, buf, err)
        \<and> err \<noteq> Some ErrUnexpectedEOF \<and> 0 \<le> n \<and> n \<le> Size args \<longrightarrow>
         fst (ReadFileHandler pk s args reply) = err
         \<and> fst (snd (ReadFileHandler pk s args reply)) = take (nat n) buf)"
  (is "?A \<and> ?B \<and> ?C \<and> ?D \<and> ?E \<and> ?F")
proof -
  have len: "length buf' = nat (Size args)"
    if "fst (ReadFile (storage s) (Vol args) (Path args) (Offset args)
                 (make_bytes (nat (Size args)))) = Some (m, buf', e)" for m buf' e
    using that by (auto simp: ReadFile_def copy_def make_bytes_def Let_def split: option.splits)
  have A: ?A
    by (auto simp: ReadFileHandler_def ReadFileHandler_body_def Let_def ReadFile_def logCall_def
        split: option.splits prod.splits)
  have B: ?B
    by (auto simp: ReadFileHandler_def ReadFileHandler_body_def Let_def ReadFile_def logCall_def
        make_bytes_def split: option.splits prod.splits if_splits)
  have C: ?C
    by (auto simp: ReadFileHandler_def split: prod.splits outcome.splits)
  have D: ?D
    using len
    by (auto simp: ReadFileHandler_body_def Let_def split: option.splits prod.splits)
  have E: ?E
    using len
    by (auto simp: ReadFileHandler_def ReadFileHandler_body_def Let_def
        split: option.splits prod.splits)
  have F: ?F
    using len
    by (auto simp: ReadFileHandler_def ReadFileHandler_body_def Let_def
        split: option.splits prod.splits)
  from A B C D E F show ?thesis by blast
qed

theorem ReadFileHandler_buffer_panic_short_read_witness:
  "isRPCTokenValid examplePkg (Token readFive) \<and> 0 \<le> Size readFive
   \<and> Size readFive \<le> maxAlloc examplePkg
   \<and> fst (ReadFile (storage exampleServer) (Vol readFive) (Path readFive) (Offset readFive)
            (make_bytes (nat (Size readFive))))
       = Some (3, ''abc'' @ [CHR 0x00, CHR 0x00], Some ErrUnexpectedEOF)
   \<and> fst (ReadFileHandler examplePkg exampleServer readFive []) = None
   \<and> fst (snd (ReadFileHandler examplePkg exampleServer readFive [])) = ''abc''
   \<and> calls (storage (snd (snd (ReadFileHandler examplePkg exampleServer readFive []))))
       = [CallReadFile ''bucket'' ''object/part.1'' 0 5]
   \<and> fst (ReadFileHandler_body examplePkg exampleServer readNegative []) = Panics
   \<and> fst (ReadFileHandler examplePkg exampleServer readNegative []) = Some ErrTooLarge"
proof -
  note t5 = ReadFileHandler_buffer_panic_short_read
        [of examplePkg readFive exampleServer "[]" 3 "''abc'' @ [CHR 0x00, CHR 0x00]"]
  note tn = ReadFileHandler_buffer_panic_short_read
        [of examplePkg readNegative exampleServer "[]" 0 "[]"]
  have "calls (storage (snd (snd (ReadFileHandler examplePkg exampleServer readFive []))))
        = calls (storage exampleServer)
            @ [CallReadFile (Vol readFive) (Path readFive) (Offset readFive) (nat (Size readFive))]"
    using t5 [THEN conjunct1] readFive_valid by (rule mp)
  then have a: "calls (storage (snd (snd (ReadFileHandler examplePkg exampleServer readFive []))))
       = [CallReadFile ''bucket'' ''object/part.1'' 0 5]"
    by (simp add: exampleServer_calls readFive_fields)
  have pre: "isRPCTokenValid examplePkg (Token readFive) \<and> 0 \<le> Size readFive
        \<and> Size readFive \<le> maxAlloc examplePkg
        \<and> fst (ReadFile (storage exampleServer) (Vol readFive) (Path readFive) (Offset readFive)
                 (make_bytes (nat (Size readFive))))
             = Some (3, ''abc'' @ [CHR 0x00, CHR 0x00], Some ErrUnexpectedEOF)
        \<and> (0::int) \<le> 3 \<and> 3 \<le> Size readFive"
    using readFive_valid readFive_short by (simp add: readFive_fields)
  have "fst (ReadFileHandler examplePkg exampleServer readFive []) = None
         \<and> fst (snd (ReadFileHandler examplePkg exampleServer readFive []))
             = take (nat 3) (''abc'' @ [CHR 0x00, CHR 0x00])
         \<and> int (length (fst (snd (ReadFileHandler examplePkg exampleServer readFive [])))) = 3"
    using t5 [THEN conjunct2, THEN conjunct2, THEN conjunct2, THEN conjunct2, THEN conjunct1] pre
    by (rule mp)
  then have b: "fst (ReadFileHandler examplePkg exampleServer readFive []) = None
     \<and> fst (snd (ReadFileHandler examplePkg exampleServer readFive [])) = ''abc''"
    by (simp add: numeral_eq_Suc)
  have c: "fst (ReadFileHandler examplePkg exampleServer readNegative []) = Some ErrTooLarge"
    using tn [THEN conjunct2, THEN conjunct2, THEN conjunct1] readNegative_panics by (rule mp)
  show ?thesis using readFive_valid readFive_short a b c readNegative_panics by blast
qed

section \<open>Properties of the bucket operations\<close>

subsection \<open>Call logs\<close>

lemma diskExtendedBy_refl: "diskExtendedBy P a a"
  by (cases a) (simp_all add: diskExtendedBy_def)

lemma diskExtendedBy_trans:
  assumes "diskExtendedBy P a b" and "diskExtendedBy P b c"
  shows "diskExtendedBy P a c"
proof (cases a)
  case None
  with assms show ?thesis by (auto simp: diskExtendedBy_def split: option.splits)
next
  case (Some d)
  with assms obtain d1 d2 where b: "b = Some d1" and c: "c = Some d2"
    by (auto simp: diskExtendedBy_def split: option.splits)
  from assms Some b c obtain xs ys where
    xs: "calls d1 = calls d @ xs" "list_all P xs" and ys: "calls d2 = calls d1 @ ys" "list_all P ys"
    by (auto simp: diskExtendedBy_def prefix_def)
  then have "calls d2 = calls d @ (xs @ ys)" "list_all P (xs @ ys)" by simp_all
  then show ?thesis using Some c by (simp add: diskExtendedBy_def)
qed

lemma diskExtendedBy_logCall: "P c \<Longrightarrow> diskExtendedBy P (Some d) (Some (logCall c d))"
  by (simp add: diskExtendedBy_def logCall_def)

lemma disksExtendedBy_refl: "disksExtendedBy P ds ds"
  by (simp add: disksExtendedBy_def list_all2_refl diskExtendedBy_refl)

lemma disksExtendedBy_trans:
  "disksExtendedBy P a b \<Longrightarrow> disksExtendedBy P b c \<Longrightarrow> disksExtendedBy P a c"
  unfolding disksExtendedBy_def
  using diskExtendedBy_trans [of P] by (rule list_all2_trans)

lemma disksExtendedBy_update:
  assumes "diskAt ds i = Some d" and "P c"
  shows "disksExtendedBy P ds (ds[i := Some (logCall c d)])"
proof -
  from assms(1) have i: "i < length ds" "ds ! i = Some d"
    by (auto simp: diskAt_def split: if_splits)
  show ?thesis
    unfolding disksExtendedBy_def list_all2_conv_all_nth
    using i assms(2)
    by (auto simp: nth_list_update diskExtendedBy_refl diskExtendedBy_logCall)
qed

lemma getBucketInfo_loop_calls:
  "getBucketInfo_loop bucket order err ds = (res, ds')
     \<Longrightarrow> disksExtendedBy (\<lambda>c. c = CallStatVol bucket) ds ds'"
proof (induction order arbitrary: err ds)
  case Nil
  then show ?case by (simp add: disksExtendedBy_refl)
next
  case (Cons i rest)
  show ?case
  proof (cases "diskAt ds i")
    case None
    with Cons show ?thesis by simp
  next
    case (Some d)
    let ?ds1 = "ds[i := Some (logCall (CallStatVol bucket) d)]"
    have step: "disksExtendedBy (\<lambda>c. c = CallStatVol bucket) ds ?ds1"
      using Some by (rule disksExtendedBy_update) simp
    have "ds' = ?ds1 \<or> (\<exists>e. getBucketInfo_loop bucket rest e ?ds1 = (res, ds'))"
      using Cons.prems Some by (auto simp: StatVol_def split: if_splits prod.splits)
    then show ?thesis
      using step Cons.IH disksExtendedBy_trans by blast
  qed
qed

lemma isBucketExist_effect:
  assumes "isBucketExist pk xl r ns bucket = (exist, xl1, ns1)"
  shows "ns1 = ns @ [NSRLock bucket [] (getOpsID pk), NSRUnlock bucket [] (getOpsID pk)]"
    and "disksExtendedBy (\<lambda>c. c = CallStatVol bucket) (storageDisks xl) (storageDisks xl1)"
    and "writeQuorum xl1 = writeQuorum xl"
proof -
  obtain info err ds1 where g: "getBucketInfo xl r bucket = ((info, err), ds1)"
    by (metis prod.exhaust)
  with assms have xl1: "xl1 = xl\<lparr>storageDisks := ds1\<rparr>"
    and ns1: "ns1 = ns @ [NSRLock bucket [] (getOpsID pk), NSRUnlock bucket [] (getOpsID pk)]"
    by (simp_all add: isBucketExist_def Let_def)
  show "ns1 = ns @ [NSRLock bucket [] (getOpsID pk), NSRUnlock bucket [] (getOpsID pk)]"
    by (rule ns1)
  show "disksExtendedBy (\<lambda>c. c = CallStatVol bucket) (storageDisks xl) (storageDisks xl1)"
    using getBucketInfo_loop_calls g xl1 by (simp add: getBucketInfo_def)
  show "writeQuorum xl1 = writeQuorum xl" using xl1 by simp
qed

subsection \<open>The concrete disks\<close>

lemmas example_disk_defs = volumesDisk_def cleanupFailsDisk_def emptyDisk_def faultyDisk_def volsAfter_def

lemmas order4 = lbOrder_def upt_rec [of 0] upt_rec [of 1] upt_rec [of 2] upt_rec [of 3] upt_rec [of 4]

lemma photos_valid: "IsValidBucketName examplePkg ''photos''"
  by (simp add: examplePkg_def specValidBucketName_def lowerOrDigit_def)


subsection \<open>The load-balanced order\<close>

lemma diskAt_update_other: "j \<noteq> i \<Longrightarrow> diskAt (ds[i := x]) j = diskAt ds j"
  by (simp add: diskAt_def)

lemma lbOrder_distinct: "distinct (lbOrder n r)"
  by (simp add: lbOrder_def)

lemma lbOrder_set: "set (lbOrder n r) = {..<n}"
  by (auto simp: lbOrder_def)

subsection \<open>MakeBucket on a bucket that exists\<close>

text \<open>
  The existence check finds the bucket when, in the order in which it visits the disks, a
  disk whose \<open>StatVol\<close> succeeds comes after none but disks that it goes past.
\<close>

lemma getBucketInfo_loop_found:
  assumes "distinct (pre @ i # post)"
    and "\<forall>j\<in>set pre. statVolSkipped bucket (diskAt ds j)"
    and "statVolSucceeds bucket (diskAt ds i)"
  shows "snd (fst (getBucketInfo_loop bucket (pre @ i # post) err ds)) = None"
  using assms
proof (induction pre arbitrary: err ds)
  case Nil
  then show ?case
    by (auto simp: statVolSucceeds_def split: option.splits prod.splits)
next
  case (Cons j pre)
  from Cons.prems(1) have dist: "distinct (pre @ i # post)" and jpre: "j \<notin> set pre" and ji: "i \<noteq> j"
    by auto
  show ?case
  proof (cases "diskAt ds j")
    case None
    with Cons.IH [OF dist, of ds err] Cons.prems(2,3) show ?thesis by simp
  next
    case (Some d)
    obtain volInfo err1 d1 where sv: "StatVol d bucket = ((volInfo, err1), d1)"
      by (metis prod.exhaust)
    from Cons.prems(2) Some sv have ign: "isErrIgnored err1 bucketMetadataOpIgnoredErrs"
      by (simp add: statVolSkipped_def)
    then have ne: "err1 \<noteq> None" by (cases err1) (simp_all add: isErrIgnored_def)
    let ?ds1 = "ds[j := Some d1]"
    have same: "diskAt ?ds1 k = diskAt ds k" if "k \<noteq> j" for k
      using that by (rule diskAt_update_other)
    have a: "\<forall>k\<in>set pre. statVolSkipped bucket (diskAt ?ds1 k)"
    proof
      fix k assume k: "k \<in> set pre"
      with jpre have "k \<noteq> j" by auto
      with Cons.prems(2) k same show "statVolSkipped bucket (diskAt ?ds1 k)" by simp
    qed
    have b: "statVolSucceeds bucket (diskAt ?ds1 i)"
      using Cons.prems(3) ji same by simp
    from Cons.IH [OF dist a b, of err1] Some sv ign ne show ?thesis by simp
  qed
qed

lemma isBucketExist_found:
  assumes "lbOrder (length (storageDisks xl)) r = pre @ i # post"
    and "\<forall>j\<in>set pre. statVolSkipped bucket (storageDisks xl ! j)"
    and "statVolSucceeds bucket (storageDisks xl ! i)"
  shows "fst (isBucketExist pk xl r ns bucket)"
proof -
  let ?order = "lbOrder (length (storageDisks xl)) r"
  have at: "diskAt (storageDisks xl) j = storageDisks xl ! j" if "j \<in> set ?order" for j
    using that lbOrder_set [of "length (storageDisks xl)" r] by (auto simp: diskAt_def)
  have dist: "distinct (pre @ i # post)"
    using lbOrder_distinct [of "length (storageDisks xl)" r] assms(1) by simp
  have mem: "i \<in> set ?order" "set pre \<subseteq> set ?order" using assms(1) by auto
  have a: "\<forall>j\<in>set pre. statVolSkipped bucket (diskAt (storageDisks xl) j)"
    using assms(2) at mem by auto
  have b: "statVolSucceeds bucket (diskAt (storageDisks xl) i)"
    using assms(3) at mem by auto
  have "snd (fst (getBucketInfo xl r bucket)) = None"
    unfolding getBucketInfo_def assms(1) by (rule getBucketInfo_loop_found [OF dist a b])
  then show ?thesis
    by (cases "getBucketInfo xl r bucket") (auto simp: isBucketExist_def Let_def)
qed

lemmas xl_eval = MakeBucket_def isBucketExist_def getBucketInfo_def order4 diskAt_def
      StatVol_def MakeVol_def DeleteVol_def example_disk_defs isErrIgnored_def bucketMetadataOpIgnoredErrs_def
      examplePkg_def logCall_def specValidBucketName_def lowerOrDigit_def makeVolAll_def makeVolOnDisk_def
      undoMakeBucket_def isDiskQuorum_def specToObjectErr_def Let_def

text \<open>
  C10, as the specification states it, does not hold. All four disks hold the bucket
  \<open>photos\<close>. The disk that the existence check visits first is a remote disk that is not
  connected to yet: its \<open>StatVol\<close> fails with \<open>errVolumeBusy\<close>, which is not one of
  \<open>bucketMetadataOpIgnoredErrs\<close>, so \<open>getBucketInfo\<close> leaves its loop with that error and
  \<open>isBucketExist\<close> answers \<open>false\<close>. \<open>MakeBucket\<close> takes the exclusive lock, calls \<open>MakeVol\<close>
  on every disk, which fails everywhere because the volume is there, undoes with
  \<open>DeleteVol\<close> on every disk and returns the write-quorum error, not \<open>BucketExists\<close>.
\<close>

theorem MakeBucket_disk_not_connected_counterexample:
  "IsValidBucketName examplePkg ''photos''
   \<and> fst (StatVol (volumesDisk [''photos'']) ''photos'') = (\<lparr>Name = ''photos'', Created = 0\<rparr>, None)
   \<and> fst (StatVol (notYetConnected (volumesDisk [''photos''])) ''photos'')
       = (\<lparr>Name = [], Created = 0\<rparr>, Some errVolumeBusy)
   \<and> fst (StatVol (snd (StatVol (notYetConnected (volumesDisk [''photos''])) ''photos'')) ''photos'')
       = (\<lparr>Name = ''photos'', Created = 0\<rparr>, None)
   \<and> fst (MakeBucket examplePkg xlFirstBusy 0 [] ''photos'') = Some WriteQuorum
   \<and> fst (MakeBucket examplePkg xlFirstBusy 0 [] ''photos'')
       \<noteq> Some (toObjectErr examplePkg errVolumeExists [''photos''])
   \<and> snd (snd (MakeBucket examplePkg xlFirstBusy 0 [] ''photos''))
       = [NSRLock ''photos'' [] [], NSRUnlock ''photos'' [] [],
          NSLock ''photos'' [] [], NSUnlock ''photos'' [] []]
   \<and> map (map_option calls)
        (storageDisks (fst (snd (MakeBucket examplePkg xlFirstBusy 0 [] ''photos''))))
       = [Some [CallStatVol ''photos'', CallMakeVol ''photos'', CallDeleteVol ''photos''],
          Some [CallMakeVol ''photos'', CallDeleteVol ''photos''],
          Some [CallMakeVol ''photos'', CallDeleteVol ''photos''],
          Some [CallMakeVol ''photos'', CallDeleteVol ''photos'']]"
  by (simp add: xl_eval xlFirstBusy_def notYetConnected_def)

text \<open>
  C10, amended. For a valid bucket name that the existence check finds on the disks (in
  the load-balanced order, a disk whose \<open>StatVol\<close> of the bucket returns no error comes
  after none but missing disks and disks whose \<open>StatVol\<close> fails with an error of
  \<open>bucketMetadataOpIgnoredErrs\<close>), \<open>MakeBucket\<close> returns \<open>toObjectErr(errVolumeExists, bucket)\<close>;
  the lock operations it has made are the read lock of the existence check and its release
  (no \<open>nsMutex.Lock\<close>), and every disk has received, at most, \<open>StatVol\<close> calls for the
  bucket (no \<open>MakeVol\<close>).
\<close>

theorem MakeBucket_bucket_found:
  assumes "IsValidBucketName pk bucket"
    and "lbOrder (length (storageDisks xl)) r = pre @ i # post"
    and "\<forall>j\<in>set pre. statVolSkipped bucket (storageDisks xl ! j)"
    and "statVolSucceeds bucket (storageDisks xl ! i)"
  shows "fst (MakeBucket pk xl r ns bucket) = Some (toObjectErr pk errVolumeExists [bucket])
    \<and> snd (snd (MakeBucket pk xl r ns bucket))
        = ns @ [NSRLock bucket [] (getOpsID pk), NSRUnlock bucket [] (getOpsID pk)]
    \<and> disksExtendedBy (\<lambda>c. c = CallStatVol bucket)
        (storageDisks xl) (storageDisks (fst (snd (MakeBucket pk xl r ns bucket))))"
proof -
  obtain exist xl1 ns1 where ex: "isBucketExist pk xl r ns bucket = (exist, xl1, ns1)"
    by (metis prod.exhaust)
  from isBucketExist_found [OF assms(2-4), of pk ns] ex have exist by simp
  with assms(1) ex have mb: "MakeBucket pk xl r ns bucket
      = (Some (toObjectErr pk errVolumeExists [bucket]), xl1, ns1)"
    by (simp add: MakeBucket_def)
  show ?thesis
    using isBucketExist_effect(1,2) [OF ex] by (simp add: mb)
qed

lemma xlOneHolds_order: "lbOrder (length (storageDisks xlOneHolds)) 1 = [1, 2, 3] @ 0 # []"
  by (simp add: xlOneHolds_def order4)

lemma xlOneHolds_skipped:
  "\<forall>j\<in>set [1, 2, 3]. statVolSkipped ''photos'' (storageDisks xlOneHolds ! j)"
  by (simp add: xlOneHolds_def statVolSkipped_def StatVol_def example_disk_defs isErrIgnored_def
      bucketMetadataOpIgnoredErrs_def)

lemma xlOneHolds_found: "statVolSucceeds ''photos'' (storageDisks xlOneHolds ! 0)"
  by (simp add: xlOneHolds_def statVolSucceeds_def StatVol_def example_disk_defs)

theorem MakeBucket_bucket_found_witness:
  "IsValidBucketName examplePkg ''photos''
   \<and> lbOrder (length (storageDisks xlOneHolds)) 1 = [1, 2, 3] @ 0 # []
   \<and> statVolSkipped ''photos'' (storageDisks xlOneHolds ! 1)
   \<and> statVolSkipped ''photos'' (storageDisks xlOneHolds ! 2)
   \<and> statVolSkipped ''photos'' (storageDisks xlOneHolds ! 3)
   \<and> statVolSucceeds ''photos'' (storageDisks xlOneHolds ! 0)
   \<and> fst (MakeBucket examplePkg xlOneHolds 1 [] ''photos'') = Some (BucketExists ''photos'')
   \<and> snd (snd (MakeBucket examplePkg xlOneHolds 1 [] ''photos''))
       = [NSRLock ''photos'' [] [], NSRUnlock ''photos'' [] []]
   \<and> map (map_option calls)
        (storageDisks (fst (snd (MakeBucket examplePkg xlOneHolds 1 [] ''photos''))))
       = [Some [CallStatVol ''photos''], Some [CallStatVol ''photos''],
          Some [CallStatVol ''photos''], None]"
proof -
  note t = MakeBucket_bucket_found [OF photos_valid xlOneHolds_order xlOneHolds_skipped
      xlOneHolds_found, of "[]"]
  have err: "fst (MakeBucket examplePkg xlOneHolds 1 [] ''photos'') = Some (BucketExists ''photos'')"
    using t [THEN conjunct1] by (simp add: examplePkg_def specToObjectErr_def)
  have ns: "snd (snd (MakeBucket examplePkg xlOneHolds 1 [] ''photos''))
       = [NSRLock ''photos'' [] [], NSRUnlock ''photos'' [] []]"
    using t [THEN conjunct2, THEN conjunct1] by (simp add: examplePkg_def)
  have log: "map (map_option calls)
        (storageDisks (fst (snd (MakeBucket examplePkg xlOneHolds 1 [] ''photos''))))
       = [Some [CallStatVol ''photos''], Some [CallStatVol ''photos''],
          Some [CallStatVol ''photos''], None]"
    by (simp add: xl_eval xlOneHolds_def)
  have sk: "statVolSkipped ''photos'' (storageDisks xlOneHolds ! 1)
   \<and> statVolSkipped ''photos'' (storageDisks xlOneHolds ! 2)
   \<and> statVolSkipped ''photos'' (storageDisks xlOneHolds ! 3)"
    using xlOneHolds_skipped by simp
  show ?thesis
    using photos_valid xlOneHolds_order sk xlOneHolds_found err ns log by blast
qed


subsection \<open>MakeBucket below the write quorum\<close>

lemma count_successes:
  assumes "\<And>disk. (fst (f disk) = None) = ok disk"
  shows "length (filter (\<lambda>e. e = None) (map (\<lambda>disk. fst (f disk)) ds)) = length (filter ok ds)"
  using assms by (induction ds) simp_all

lemma makeVolAll_successes:
  "length (filter (\<lambda>e. e = None) (fst (makeVolAll bucket ds)))
     = length (filter (makeVolSucceeds bucket) ds)"
  unfolding makeVolAll_def fst_conv
  by (rule count_successes)
     (simp add: makeVolOnDisk_def makeVolSucceeds_def split: option.splits prod.splits)

lemma undoMakeBucket_makeVolAll:
  "undoMakeBucket bucket (snd (makeVolAll bucket ds))
     = map (map_option (\<lambda>d. logCall (CallDeleteVol bucket) (logCall (CallMakeVol bucket) d))) ds"
  by (simp add: undoMakeBucket_def makeVolAll_def makeVolOnDisk_def MakeVol_def DeleteVol_def
      split: option.splits)

text \<open>
  C3. For a valid bucket name for which \<open>isBucketExist\<close> answers \<open>false\<close>, and whatever the
  disks answer: if \<open>MakeVol\<close> succeeds on fewer than \<open>writeQuorum\<close> disks, \<open>MakeBucket\<close> returns
  \<open>toObjectErr(errXLWriteQuorum, bucket)\<close>, and every disk that is not \<open>nil\<close> has received
  \<open>MakeVol\<close> and then \<open>DeleteVol\<close> for the bucket; in particular \<open>DeleteVol\<close> has been called
  on each disk on which \<open>MakeVol\<close> had succeeded.
\<close>

theorem MakeBucket_below_write_quorum:
  assumes "IsValidBucketName pk bucket"
    and "isBucketExist pk xl r ns bucket = (False, xl1, ns1)"
    and "int (length (filter (makeVolSucceeds bucket) (storageDisks xl1))) < writeQuorum xl"
  shows "MakeBucket pk xl r ns bucket =
           (Some (toObjectErr pk errXLWriteQuorum [bucket]),
            xl1\<lparr>storageDisks :=
                  map (map_option (\<lambda>d. logCall (CallDeleteVol bucket)
                                         (logCall (CallMakeVol bucket) d)))
                    (storageDisks xl1)\<rparr>,
            ns1 @ [NSLock bucket [] (getOpsID pk), NSUnlock bucket [] (getOpsID pk)])
    \<and> (\<forall>i<length (storageDisks xl1).
          makeVolSucceeds bucket (storageDisks xl1 ! i) \<longrightarrow>
            (\<exists>d d'. storageDisks xl1 ! i = Some d
               \<and> storageDisks (fst (snd (MakeBucket pk xl r ns bucket))) ! i = Some d'
               \<and> calls d' = calls d @ [CallMakeVol bucket, CallDeleteVol bucket]))"
proof -
  obtain dErrs disks2 where mv: "makeVolAll bucket (storageDisks xl1) = (dErrs, disks2)"
    by (metis prod.exhaust)
  have q: "writeQuorum xl1 = writeQuorum xl"
    using isBucketExist_effect(3) [OF assms(2)] .
  have "length (filter (\<lambda>e. e = None) dErrs)
          = length (filter (makeVolSucceeds bucket) (storageDisks xl1))"
    using makeVolAll_successes [of bucket "storageDisks xl1"] mv by simp
  with assms(3) q have nq: "\<not> isDiskQuorum dErrs (writeQuorum xl1)"
    by (simp add: isDiskQuorum_def)
  have undo: "undoMakeBucket bucket disks2
     = map (map_option (\<lambda>d. logCall (CallDeleteVol bucket) (logCall (CallMakeVol bucket) d)))
         (storageDisks xl1)"
    using undoMakeBucket_makeVolAll [of bucket "storageDisks xl1"] mv by simp
  have res: "MakeBucket pk xl r ns bucket =
           (Some (toObjectErr pk errXLWriteQuorum [bucket]),
            xl1\<lparr>storageDisks :=
                  map (map_option (\<lambda>d. logCall (CallDeleteVol bucket)
                                         (logCall (CallMakeVol bucket) d)))
                    (storageDisks xl1)\<rparr>,
            ns1 @ [NSLock bucket [] (getOpsID pk), NSUnlock bucket [] (getOpsID pk)])"
    using assms(1,2) mv nq undo by (simp add: MakeBucket_def Let_def)
  have "\<exists>d d'. storageDisks xl1 ! i = Some d
               \<and> storageDisks (fst (snd (MakeBucket pk xl r ns bucket))) ! i = Some d'
               \<and> calls d' = calls d @ [CallMakeVol bucket, CallDeleteVol bucket]"
    if "i < length (storageDisks xl1)" "makeVolSucceeds bucket (storageDisks xl1 ! i)" for i
  proof -
    from that(2) obtain d where d: "storageDisks xl1 ! i = Some d"
      by (auto simp: makeVolSucceeds_def split: option.splits)
    with that(1) res show ?thesis by (simp add: logCall_def)
  qed
  with res show ?thesis by blast
qed

lemma xlOneGood_check:
  "isBucketExist examplePkg xlOneGood 0 [] ''photos'' =
    (False,
     xlOneGood\<lparr>storageDisks :=
       [Some (logCall (CallStatVol ''photos'') (volumesDisk [])),
        Some (logCall (CallStatVol ''photos'') faultyDisk),
        Some (logCall (CallStatVol ''photos'') faultyDisk), None]\<rparr>,
     [NSRLock ''photos'' [] [], NSRUnlock ''photos'' [] []])"
  by (simp add: isBucketExist_def getBucketInfo_def xlOneGood_def order4 diskAt_def
      StatVol_def example_disk_defs isErrIgnored_def bucketMetadataOpIgnoredErrs_def
      examplePkg_def logCall_def)

lemma xlOneGood_successes:
  "filter (makeVolSucceeds ''photos'')
     [Some (logCall (CallStatVol ''photos'') (volumesDisk [])),
      Some (logCall (CallStatVol ''photos'') faultyDisk),
      Some (logCall (CallStatVol ''photos'') faultyDisk), None]
   = [Some (logCall (CallStatVol ''photos'') (volumesDisk []))]"
  by (simp add: makeVolSucceeds_def MakeVol_def example_disk_defs logCall_def)

theorem MakeBucket_below_write_quorum_witness:
  "IsValidBucketName examplePkg ''photos''
   \<and> fst (isBucketExist examplePkg xlOneGood 0 [] ''photos'') = False
   \<and> int (length (filter (makeVolSucceeds ''photos'')
            (storageDisks (fst (snd (isBucketExist examplePkg xlOneGood 0 [] ''photos''))))))
       < writeQuorum xlOneGood
   \<and> fst (MakeBucket examplePkg xlOneGood 0 [] ''photos'') = Some WriteQuorum
   \<and> map (map_option calls)
        (storageDisks (fst (snd (MakeBucket examplePkg xlOneGood 0 [] ''photos''))))
       = [Some [CallStatVol ''photos'', CallMakeVol ''photos'', CallDeleteVol ''photos''],
          Some [CallStatVol ''photos'', CallMakeVol ''photos'', CallDeleteVol ''photos''],
          Some [CallStatVol ''photos'', CallMakeVol ''photos'', CallDeleteVol ''photos''],
          None]"
proof -
  let ?xl1 = "xlOneGood\<lparr>storageDisks :=
       [Some (logCall (CallStatVol ''photos'') (volumesDisk [])),
        Some (logCall (CallStatVol ''photos'') faultyDisk),
        Some (logCall (CallStatVol ''photos'') faultyDisk), None]\<rparr>"
  have xlOneGood_disks: "storageDisks ?xl1 =
       [Some (logCall (CallStatVol ''photos'') (volumesDisk [])),
        Some (logCall (CallStatVol ''photos'') faultyDisk),
        Some (logCall (CallStatVol ''photos'') faultyDisk), None]"
    by simp
  have fewer: "int (length (filter (makeVolSucceeds ''photos'') (storageDisks ?xl1)))
                 < writeQuorum xlOneGood"
    unfolding xlOneGood_disks xlOneGood_successes by (simp add: xlOneGood_def)
  note t = MakeBucket_below_write_quorum [OF photos_valid xlOneGood_check fewer]
  have res: "MakeBucket examplePkg xlOneGood 0 [] ''photos'' =
           (Some (toObjectErr examplePkg errXLWriteQuorum [''photos'']),
            ?xl1\<lparr>storageDisks :=
                  map (map_option (\<lambda>d. logCall (CallDeleteVol ''photos'')
                                         (logCall (CallMakeVol ''photos'') d)))
                    (storageDisks ?xl1)\<rparr>,
            [NSRLock ''photos'' [] [], NSRUnlock ''photos'' [] []]
              @ [NSLock ''photos'' [] (getOpsID examplePkg), NSUnlock ''photos'' [] (getOpsID examplePkg)])"
    using t by (rule conjunct1)
  have err: "fst (MakeBucket examplePkg xlOneGood 0 [] ''photos'') = Some WriteQuorum"
    by (simp add: res) (simp add: examplePkg_def specToObjectErr_def)
  have log: "map (map_option calls)
        (storageDisks (fst (snd (MakeBucket examplePkg xlOneGood 0 [] ''photos''))))
       = [Some [CallStatVol ''photos'', CallMakeVol ''photos'', CallDeleteVol ''photos''],
          Some [CallStatVol ''photos'', CallMakeVol ''photos'', CallDeleteVol ''photos''],
          Some [CallStatVol ''photos'', CallMakeVol ''photos'', CallDeleteVol ''photos''],
          None]"
    by (simp add: res) (simp add: logCall_def example_disk_defs)
  show ?thesis
    using photos_valid fewer err log by (simp add: xlOneGood_check)
qed

subsection \<open>DeleteBucket and the write quorum\<close>














subsection \<open>ListBuckets\<close>

lemma listBuckets_loop_result:
  assumes "distinct order" and "listBuckets_loop pk order err ds = ((bs, None), ds')"
  shows "(bs = [] \<and> (\<forall>j\<in>set order. passedOver pk (diskAt ds j)))
       \<or> (\<exists>pre i post d volsInfo.
            order = pre @ i # post \<and> diskAt ds i = Some d \<and> fst (ListVols d) = (volsInfo, None)
            \<and> bs = bucketsOfVols pk volsInfo \<and> bs \<noteq> []
            \<and> (\<forall>j\<in>set pre. passedOver pk (diskAt ds j)))"
  using assms
proof (induction order arbitrary: err ds)
  case Nil
  then show ?case by simp
next
  case (Cons i rest)
  from Cons.prems(1) have dist: "distinct rest" and inotin: "i \<notin> set rest" by simp_all
  show ?case
  proof (cases "diskAt ds i")
    case None
    then have po: "passedOver pk (diskAt ds i)" by (simp add: passedOver_def)
    from Cons.prems(2) None have "listBuckets_loop pk rest err ds = ((bs, None), ds')" by simp
    from Cons.IH [OF dist this] show ?thesis
    proof (elim disjE exE conjE)
      assume "bs = []" "\<forall>j\<in>set rest. passedOver pk (diskAt ds j)"
      with po show ?thesis by simp
    next
      fix pre k post d volsInfo
      assume "rest = pre @ k # post" "diskAt ds k = Some d" "fst (ListVols d) = (volsInfo, None)"
        "bs = bucketsOfVols pk volsInfo" "bs \<noteq> []" "\<forall>j\<in>set pre. passedOver pk (diskAt ds j)"
      with po have "i # rest = (i # pre) @ k # post \<and> diskAt ds k = Some d
          \<and> fst (ListVols d) = (volsInfo, None) \<and> bs = bucketsOfVols pk volsInfo \<and> bs \<noteq> []
          \<and> (\<forall>j\<in>set (i # pre). passedOver pk (diskAt ds j))"
        by simp
      then show ?thesis by blast
    qed
  next
    case (Some d)
    obtain volsInfo err1 where lv: "fst (ListVols d) = (volsInfo, err1)"
      by (metis prod.exhaust)
    then have lv': "ListVols d = ((volsInfo, err1), logCall CallListVols d)"
      by (simp add: ListVols_def)
    let ?ds1 = "ds[i := Some (logCall CallListVols d)]"
    have same: "diskAt ?ds1 j = diskAt ds j" if "j \<in> set rest" for j
      using that inotin by (intro diskAt_update_other) auto
    show ?thesis
    proof (cases "err1 = None \<and> bucketsOfVols pk volsInfo \<noteq> []")
      case True
      with Cons.prems(2) Some lv' have "bs = bucketsOfVols pk volsInfo" by simp
      with True Some lv have "i # rest = [] @ i # rest \<and> diskAt ds i = Some d
          \<and> fst (ListVols d) = (volsInfo, None) \<and> bs = bucketsOfVols pk volsInfo \<and> bs \<noteq> []
          \<and> (\<forall>j\<in>set []. passedOver pk (diskAt ds j))"
        by simp
      then show ?thesis by blast
    next
      case False
      have notbreak: "err1 = None \<or> isErrIgnored err1 bucketMetadataOpIgnoredErrs"
        using Cons.prems(2) Some lv' by (auto split: if_splits)
      then have po: "passedOver pk (diskAt ds i)"
        using False Some lv by (auto simp: passedOver_def split: option.splits)
      have rec: "listBuckets_loop pk rest err1 ?ds1 = ((bs, None), ds')"
        using Cons.prems(2) Some lv' False notbreak by (auto split: if_splits)
      from Cons.IH [OF dist rec] show ?thesis
      proof (elim disjE exE conjE)
        assume "bs = []" "\<forall>j\<in>set rest. passedOver pk (diskAt ?ds1 j)"
        with po same show ?thesis by simp
      next
        fix pre k post d2 volsInfo2
        assume a: "rest = pre @ k # post" "diskAt ?ds1 k = Some d2"
          "fst (ListVols d2) = (volsInfo2, None)"
          "bs = bucketsOfVols pk volsInfo2" "bs \<noteq> []" "\<forall>j\<in>set pre. passedOver pk (diskAt ?ds1 j)"
        from a(1) have "k \<in> set rest" and "set pre \<subseteq> set rest" by auto
        with a po same have "i # rest = (i # pre) @ k # post \<and> diskAt ds k = Some d2
          \<and> fst (ListVols d2) = (volsInfo2, None) \<and> bs = bucketsOfVols pk volsInfo2 \<and> bs \<noteq> []
          \<and> (\<forall>j\<in>set (i # pre). passedOver pk (diskAt ds j))"
          by auto
        then show ?thesis by blast
      qed
    qed
  qed
qed

lemma bucketsOfVols_valid:
  "b \<in> set (bucketsOfVols pk volsInfo)
     \<Longrightarrow> IsValidBucketName pk (BucketName b) \<and> BucketName b \<noteq> minioMetaBucket pk"
  by (auto simp: bucketsOfVols_def)

lemma xlFreshFirst_ListBuckets:
  "ListBuckets examplePkg xlFreshFirst 0 =
     (([\<lparr>BucketName = ''backup'', BucketCreated = 0\<rparr>,
        \<lparr>BucketName = ''photos'', BucketCreated = 0\<rparr>], None),
      xlFreshFirst\<lparr>storageDisks :=
        [Some (logCall CallListVols (volumesDisk [''.minio''])),
         Some (logCall CallListVols (volumesDisk [''.minio'', ''photos'', ''backup'']))]\<rparr>)"
  by (simp add: ListBuckets_def listBuckets_def xlFreshFirst_def order4 diskAt_def
      ListVols_def example_disk_defs bucketsOfVols_def examplePkg_def specValidBucketName_def
      lowerOrDigit_def logCall_def isErrIgnored_def bucketMetadataOpIgnoredErrs_def
      less_eq_char_def less_char_def)

text \<open>
  C5, as the specification states it, does not hold. The first disk of the load-balanced
  order answers \<open>ListVols\<close> without an error; it holds the meta volume only, so none of its
  volumes is a bucket. \<open>ListBuckets\<close> succeeds and returns the two buckets of the second
  disk.
\<close>

theorem ListBuckets_first_disk_counterexample:
  "hd (lbOrder (length (storageDisks xlFreshFirst)) 0) = 0
   \<and> storageDisks xlFreshFirst ! 0 = Some (volumesDisk [''.minio''])
   \<and> fst (ListVols (volumesDisk [''.minio''])) = ([\<lparr>Name = ''.minio'', Created = 0\<rparr>], None)
   \<and> bucketsOfVols examplePkg [\<lparr>Name = ''.minio'', Created = 0\<rparr>] = []
   \<and> fst (ListBuckets examplePkg xlFreshFirst 0)
       = ([\<lparr>BucketName = ''backup'', BucketCreated = 0\<rparr>,
           \<lparr>BucketName = ''photos'', BucketCreated = 0\<rparr>], None)"
  by (simp add: xlFreshFirst_ListBuckets)
     (simp add: xlFreshFirst_def order4 ListVols_def example_disk_defs bucketsOfVols_def
      examplePkg_def specValidBucketName_def lowerOrDigit_def)

text \<open>
  C5, amended. Every list that a successful \<open>ListBuckets\<close> returns is sorted by bucket name
  and holds only valid bucket names other than the meta volume. It holds exactly the
  buckets (the volumes with a valid name other than the meta volume) of the first disk of
  the load-balanced order whose \<open>ListVols\<close> succeeds with at least one bucket, every disk
  before it being passed over (missing, failing with an ignored error, or answering with no
  bucket); when every disk is passed over, the list is empty.
\<close>

theorem ListBuckets_result:
  assumes "ListBuckets pk xl r = ((buckets, None), xl')"
  shows "sorted (map BucketName buckets)
    \<and> (\<forall>b\<in>set buckets. IsValidBucketName pk (BucketName b) \<and> BucketName b \<noteq> minioMetaBucket pk)
    \<and> ((buckets = []
          \<and> (\<forall>j\<in>set (lbOrder (length (storageDisks xl)) r). passedOver pk (storageDisks xl ! j)))
       \<or> (\<exists>pre i post d volsInfo.
            lbOrder (length (storageDisks xl)) r = pre @ i # post
            \<and> storageDisks xl ! i = Some d \<and> fst (ListVols d) = (volsInfo, None)
            \<and> bucketsOfVols pk volsInfo \<noteq> []
            \<and> mset buckets = mset (bucketsOfVols pk volsInfo)
            \<and> (\<forall>j\<in>set pre. passedOver pk (storageDisks xl ! j))))"
proof -
  let ?order = "lbOrder (length (storageDisks xl)) r"
  obtain bs ds' where lb: "listBuckets pk xl r = ((bs, None), ds')"
    and sorted: "buckets = sort_key BucketName bs"
    using assms by (auto simp: ListBuckets_def split: prod.splits option.splits)
  have at: "diskAt (storageDisks xl) j = storageDisks xl ! j" if "j \<in> set ?order" for j
    using that lbOrder_set [of "length (storageDisks xl)" r] by (auto simp: diskAt_def)
  have ms: "mset buckets = mset bs" and emp: "buckets = [] \<longleftrightarrow> bs = []"
    using sorted by (auto simp: mset_sort dest: arg_cong [where f = length])
  from listBuckets_loop_result [OF lbOrder_distinct] lb
  have cases: "(bs = [] \<and> (\<forall>j\<in>set ?order. passedOver pk (diskAt (storageDisks xl) j)))
       \<or> (\<exists>pre i post d volsInfo.
            ?order = pre @ i # post \<and> diskAt (storageDisks xl) i = Some d
            \<and> fst (ListVols d) = (volsInfo, None)
            \<and> bs = bucketsOfVols pk volsInfo \<and> bs \<noteq> []
            \<and> (\<forall>j\<in>set pre. passedOver pk (diskAt (storageDisks xl) j)))"
    unfolding listBuckets_def by blast
  have main: "(buckets = [] \<and> (\<forall>j\<in>set ?order. passedOver pk (storageDisks xl ! j)))
       \<or> (\<exists>pre i post d volsInfo.
            ?order = pre @ i # post
            \<and> storageDisks xl ! i = Some d \<and> fst (ListVols d) = (volsInfo, None)
            \<and> bucketsOfVols pk volsInfo \<noteq> []
            \<and> mset buckets = mset (bucketsOfVols pk volsInfo)
            \<and> (\<forall>j\<in>set pre. passedOver pk (storageDisks xl ! j)))"
    using cases
  proof (elim disjE exE conjE)
    assume "bs = []" "\<forall>j\<in>set ?order. passedOver pk (diskAt (storageDisks xl) j)"
    with emp at show ?thesis by simp
  next
    fix pre i post d volsInfo
    assume some: "?order = pre @ i # post"
        "diskAt (storageDisks xl) i = Some d" "fst (ListVols d) = (volsInfo, None)"
        "bs = bucketsOfVols pk volsInfo" "bs \<noteq> []"
        "\<forall>j\<in>set pre. passedOver pk (diskAt (storageDisks xl) j)"
    have "i \<in> set ?order" and "set pre \<subseteq> set ?order" using some(1) by auto
    with some at ms have "?order = pre @ i # post
            \<and> storageDisks xl ! i = Some d \<and> fst (ListVols d) = (volsInfo, None)
            \<and> bucketsOfVols pk volsInfo \<noteq> []
            \<and> mset buckets = mset (bucketsOfVols pk volsInfo)
            \<and> (\<forall>j\<in>set pre. passedOver pk (storageDisks xl ! j))"
      by auto
    then show ?thesis by blast
  qed
  have valid: "\<forall>b\<in>set bs. IsValidBucketName pk (BucketName b) \<and> BucketName b \<noteq> minioMetaBucket pk"
    using cases bucketsOfVols_valid by fastforce
  have "set buckets = set bs" using ms by (metis set_mset_mset)
  with valid main sorted show ?thesis by simp
qed

theorem ListBuckets_result_witness:
  "fst (ListBuckets examplePkg xlFreshFirst 0)
       = ([\<lparr>BucketName = ''backup'', BucketCreated = 0\<rparr>,
           \<lparr>BucketName = ''photos'', BucketCreated = 0\<rparr>], None)
   \<and> sorted (map BucketName [\<lparr>BucketName = ''backup'', BucketCreated = 0\<rparr>,
                               \<lparr>BucketName = ''photos'', BucketCreated = 0\<rparr>])
   \<and> IsValidBucketName examplePkg ''backup'' \<and> IsValidBucketName examplePkg ''photos''
   \<and> ''backup'' \<noteq> minioMetaBucket examplePkg \<and> ''photos'' \<noteq> minioMetaBucket examplePkg"
proof -
  note t = ListBuckets_result [OF xlFreshFirst_ListBuckets]
  have a: "sorted (map BucketName [\<lparr>BucketName = ''backup'', BucketCreated = 0\<rparr>,
                               \<lparr>BucketName = ''photos'', BucketCreated = 0\<rparr>])"
    using t by (rule conjunct1)
  have "\<forall>b\<in>set [\<lparr>BucketName = ''backup'', BucketCreated = 0\<rparr>,
                 \<lparr>BucketName = ''photos'', BucketCreated = 0\<rparr>].
          IsValidBucketName examplePkg (BucketName b) \<and> BucketName b \<noteq> minioMetaBucket examplePkg"
    using t [THEN conjunct2] by (rule conjunct1)
  then have b: "IsValidBucketName examplePkg ''backup'' \<and> IsValidBucketName examplePkg ''photos''
   \<and> ''backup'' \<noteq> minioMetaBucket examplePkg \<and> ''photos'' \<noteq> minioMetaBucket examplePkg"
    by simp
  show ?thesis using a b by (simp add: xlFreshFirst_ListBuckets)
qed

end
